theory Spec2Isabelle
  imports Main
begin

section \<open>The element tree\<close>

text \<open>
  The component under study is \<^verbatim>\<open>frontend/src/components/core/Block/Block.tsx\<close>.
  It renders a list of report elements. The types \<^verbatim>\<open>ReportElement\<close>,
  \<^verbatim>\<open>BlockElement\<close> and \<^verbatim>\<open>SimpleElement\<close> are declared in
  \<^verbatim>\<open>lib/DeltaParser\<close>; the component reads them with \<^verbatim>\<open>get("element")\<close>,
  \<^verbatim>\<open>get("reportId")\<close>, \<^verbatim>\<open>get("metadata")\<close>, \<^verbatim>\<open>get("type")\<close> and
  \<^verbatim>\<open>get("id")\<close>.

  Numbers (widths, heights) are integers here: pixel counts. Floating point is
  not modelled.
\<close>

type_synonym ImmutableMap = "(string \<times> string) list"

text \<open>\<^verbatim>\<open>m.get(k)\<close> on an immutable Map: \<open>None\<close> is \<^verbatim>\<open>undefined\<close>.\<close>

definition get :: "ImmutableMap \<Rightarrow> string \<Rightarrow> string option" where
  "get m k = map_of m k"

text \<open>
  Modelled from the spec: the declaration of \<^verbatim>\<open>SimpleElement\<close> is in
  \<^verbatim>\<open>lib/DeltaParser\<close>. The spec's data model gives a simple element a type tag
  and a payload; the payload is what a handler of the dispatch table receives
  as \<^verbatim>\<open>el\<close>.
\<close>

record SimpleElement =
  type :: string
  payload :: ImmutableMap

text \<open>
  Modelled from the spec: \<^verbatim>\<open>ForwardMsgMetadata\<close> is declared in
  \<^verbatim>\<open>autogen/proto\<close>. The spec calls it optional sizing metadata; the component
  reads \<^verbatim>\<open>metadata.elementDimensionSpec.width\<close> and \<^verbatim>\<open>.height\<close>, after testing
  that \<^verbatim>\<open>metadata\<close> and \<^verbatim>\<open>metadata.elementDimensionSpec\<close> are there.
\<close>

record ElementDimensionSpec =
  width :: int
  height :: int

record ForwardMsgMetadata =
  elementDimensionSpec :: "ElementDimensionSpec option"

text \<open>
  The payload \<^verbatim>\<open>reportElement.get("element")\<close> is an immutable List (a block),
  an immutable Map (a simple element), or missing (\<^verbatim>\<open>null\<close>/\<^verbatim>\<open>undefined\<close>, the case
  \<^verbatim>\<open>renderElement\<close> tests with \<^verbatim>\<open>!element\<close>): \<open>None\<close> is the missing payload.
\<close>

datatype Element = Simple SimpleElement | Block "ReportElement list"
and ReportElement =
  ReportElement (element: "Element option") (reportId: string)
    (metadata: "ForwardMsgMetadata option")

type_synonym BlockElement = "ReportElement list"

text \<open>
  Modelled from the spec: the run-state enum is declared in
  \<^verbatim>\<open>lib/ReportRunState\<close>. The component names two of its members; every other
  member is \<open>OTHER\<close>.
\<close>

datatype ReportRunState = RUNNING | RERUN_REQUESTED | OTHER string

text \<open>The widget state manager is an object the component only passes on.\<close>

datatype WidgetStateManager = WidgetStateManager nat

record Props =
  elements :: BlockElement
  reportId :: string
  reportRunState :: ReportRunState
  showStaleElementIndicator :: bool
  widgetMgr :: WidgetStateManager
  widgetsDisabled :: bool

section \<open>The rendered output\<close>

text \<open>The leaf components the file imports, eagerly or with \<^verbatim>\<open>React.lazy\<close>.\<close>

datatype Component =
    Alert | Audio | Balloons | BokehChart | Chart | DataFrame | DeckGlChart
  | DocString | ExceptionElement | GraphVizChart | ImageList | Json | Markdown
  | Multiselect | PlotlyChart | Progress | Table | Text | VegaLiteChart | Video
  | Button | Checkbox | DateInput | Radio | Selectbox | Slider | TextArea
  | TextInput | TimeInput | NumberInput

text \<open>
  The attributes a leaf is given in the JSX of \<^verbatim>\<open>renderElement\<close>:
  \<^verbatim>\<open>key\<close>, \<^verbatim>\<open>element\<close>, \<^verbatim>\<open>index\<close>, \<^verbatim>\<open>width\<close>, \<^verbatim>\<open>height\<close>, and the two of
  \<^verbatim>\<open>widgetProps\<close>. \<open>HeightProp None\<close> is \<^verbatim>\<open>height={undefined}\<close>.
\<close>

datatype Prop =
    KeyProp "string option"
  | ElementProp ImmutableMap
  | IndexProp nat
  | WidthProp int
  | HeightProp "int option"
  | WidgetMgrProp WidgetStateManager
  | DisabledProp bool

text \<open>
  A React node as this component builds it: a \<^verbatim>\<open>div\<close> (key, class name, the
  width of its style if it has one, children), an \<^verbatim>\<open>ErrorBoundary\<close> (width,
  children), a \<^verbatim>\<open>Suspense\<close> (fallback, child; the child is \<open>None\<close> when the
  expression in braces is \<^verbatim>\<open>undefined\<close>), a nested \<^verbatim>\<open>Block\<close> element with its
  props, or a leaf component with its attributes.
\<close>

datatype ReactNode =
    Div nat string "int option" "ReactNode list"
  | ErrorBoundaryNode int "ReactNode list"
  | SuspenseNode ReactNode "ReactNode option"
  | BlockNode Props
  | Leaf Component "Prop list"

datatype error =
    TransmissionError
  | TypeError
  | CannotHandle string "string option"

section \<open>Collaborators outside the file\<close>

text \<open>
  Modelled from the spec: \<^verbatim>\<open>dispatchOneOf\<close> is imported from
  \<^verbatim>\<open>lib/immutableProto\<close>. The spec describes a flat switch from the type tag to
  a presentational component: the handler stored under the element's tag is
  applied to the element's payload. The spec does not say what a tag outside
  the table does; here it is an error of its own, \<open>CannotHandle\<close>.
\<close>

definition oneofCase :: "SimpleElement \<Rightarrow> string \<Rightarrow> string option" where
  "oneofCase obj name = (if name = ''type'' then Some (type obj) else None)"

definition dispatchOneOf ::
  "SimpleElement \<Rightarrow> string \<Rightarrow> (string \<times> (ImmutableMap \<Rightarrow> 'a)) list \<Rightarrow> error + 'a" where
  "dispatchOneOf obj name funcs =
     (case oneofCase obj name of
        None \<Rightarrow> Inl (CannotHandle name None)
      | Some whichOne \<Rightarrow>
          (case map_of funcs whichOne of
             Some f \<Rightarrow> Inr (f (payload obj))
           | None \<Rightarrow> Inl (CannotHandle name (Some whichOne))))"

text \<open>
  Modelled from the spec: \<^verbatim>\<open>makeElementWithInfoText\<close> is imported from
  \<^verbatim>\<open>lib/utils\<close>. It builds the alert element shown as a placeholder; its
  \<^verbatim>\<open>get("alert")\<close> is the alert's payload, which carries the text.
\<close>

definition makeElementWithInfoText :: "string \<Rightarrow> SimpleElement" where
  "makeElementWithInfoText text =
     \<lparr>type = ''alert'', payload = [(''body'', text), (''format'', ''info'')]\<rparr>"

text \<open>\<^verbatim>\<open>list.get(index, notSetValue)\<close> on an immutable List.\<close>

definition listGet :: "'a list \<Rightarrow> nat \<Rightarrow> 'a \<Rightarrow> 'a" where
  "listGet xs index notSetValue = (if index < length xs then xs ! index else notSetValue)"

text \<open>
  \<^verbatim>\<open>array.map(callback)\<close> where the callback may throw: the first exception
  leaves the loop, and no array is returned.
\<close>

fun mapIndexed :: "('a \<Rightarrow> nat \<Rightarrow> error + 'b) \<Rightarrow> nat \<Rightarrow> 'a list \<Rightarrow> error + 'b list" where
  "mapIndexed f index [] = Inr []"
| "mapIndexed f index (x # xs) =
     (case f x index of
        Inl e \<Rightarrow> Inl e
      | Inr y \<Rightarrow>
          (case mapIndexed f (Suc index) xs of
             Inl e \<Rightarrow> Inl e
           | Inr ys \<Rightarrow> Inr (y # ys)))"

section \<open>The methods of Block\<close>

text \<open>
  \<^verbatim>\<open>getElements\<close>. The local \<^verbatim>\<open>elementsToRender\<close> is initialised with
  \<^verbatim>\<open>this.props.elements\<close>; the callback of \<^verbatim>\<open>map\<close> reads it while \<^verbatim>\<open>map\<close> runs,
  that is before the assignment of the result of \<^verbatim>\<open>map\<close> to it.
\<close>

definition getElements :: "Props \<Rightarrow> BlockElement" where
  "getElements props =
     (let elementsToRender = elements props in
      if reportRunState props = RUNNING then
        map (\<lambda>(index, reportElement).
               (case element reportElement of
                  Some (Simple el) \<Rightarrow>
                    (let isEmpty = (type el = ''empty'') in
                     if isEmpty then listGet elementsToRender index reportElement
                     else reportElement)
                | _ \<Rightarrow> reportElement))
            (enumerate 0 (elements props))
      else elementsToRender)"

definition isElementStale :: "Props \<Rightarrow> ReportElement \<Rightarrow> bool" where
  "isElementStale props reportElement =
     (if reportRunState props = RERUN_REQUESTED then True
      else if reportRunState props = RUNNING then
        ReportElement.reportId reportElement \<noteq> Props.reportId props
      else False)"

definition renderBlock :: "Props \<Rightarrow> BlockElement \<Rightarrow> nat \<Rightarrow> int \<Rightarrow> ReactNode" where
  "renderBlock props el index w =
     Div index ''stBlock'' (Some w)
       [BlockNode
          \<lparr>elements = el,
           reportId = Props.reportId props,
           reportRunState = reportRunState props,
           showStaleElementIndicator = showStaleElementIndicator props,
           widgetMgr = widgetMgr props,
           widgetsDisabled = widgetsDisabled props\<rparr>]"

text \<open>
  The table of \<^verbatim>\<open>renderElement\<close>, in the order of the source. Its handlers
  close over \<^verbatim>\<open>index\<close>, the adjusted \<^verbatim>\<open>width\<close>, \<^verbatim>\<open>height\<close> and \<^verbatim>\<open>widgetProps\<close>.
\<close>

definition dispatchTable ::
  "Props \<Rightarrow> nat \<Rightarrow> int \<Rightarrow> int option \<Rightarrow> (string \<times> (ImmutableMap \<Rightarrow> ReactNode option)) list" where
  "dispatchTable props index w h =
     (let widgetProps = [WidgetMgrProp (widgetMgr props), DisabledProp (widgetsDisabled props)] in
      [(''alert'', \<lambda>el. Some (Leaf Alert [ElementProp el, WidthProp w])),
       (''audio'', \<lambda>el. Some (Leaf Audio [ElementProp el, WidthProp w])),
       (''balloons'', \<lambda>el. Some (Leaf Balloons [ElementProp el, WidthProp w])),
       (''bokehChart'', \<lambda>el. Some (Leaf BokehChart [ElementProp el, IndexProp index, WidthProp w])),
       (''chart'', \<lambda>el. Some (Leaf Chart [ElementProp el, WidthProp w])),
       (''dataFrame'', \<lambda>el. Some (Leaf DataFrame [ElementProp el, WidthProp w, HeightProp h])),
       (''deckGlChart'', \<lambda>el. Some (Leaf DeckGlChart [ElementProp el, WidthProp w])),
       (''docString'', \<lambda>el. Some (Leaf DocString [ElementProp el, WidthProp w])),
       (''empty'', \<lambda>el. None),
       (''exception'', \<lambda>el. Some (Leaf ExceptionElement [ElementProp el, WidthProp w])),
       (''graphvizChart'', \<lambda>el. Some (Leaf GraphVizChart [ElementProp el, IndexProp index, WidthProp w])),
       (''imgs'', \<lambda>el. Some (Leaf ImageList [ElementProp el, WidthProp w])),
       (''json'', \<lambda>el. Some (Leaf Json [ElementProp el, WidthProp w])),
       (''markdown'', \<lambda>el. Some (Leaf Markdown [ElementProp el, WidthProp w])),
       (''multiselect'', \<lambda>el. Some (Leaf Multiselect
          ([KeyProp (get el ''id''), ElementProp el, WidthProp w] @ widgetProps))),
       (''plotlyChart'', \<lambda>el. Some (Leaf PlotlyChart [ElementProp el, WidthProp w])),
       (''progress'', \<lambda>el. Some (Leaf Progress [ElementProp el, WidthProp w])),
       (''table'', \<lambda>el. Some (Leaf Table [ElementProp el, WidthProp w])),
       (''text'', \<lambda>el. Some (Leaf Text [ElementProp el, WidthProp w])),
       (''vegaLiteChart'', \<lambda>el. Some (Leaf VegaLiteChart [ElementProp el, WidthProp w])),
       (''video'', \<lambda>el. Some (Leaf Video [ElementProp el, WidthProp w])),
       (''button'', \<lambda>el. Some (Leaf Button ([ElementProp el, WidthProp w] @ widgetProps))),
       (''checkbox'', \<lambda>el. Some (Leaf Checkbox
          ([KeyProp (get el ''id''), ElementProp el, WidthProp w] @ widgetProps))),
       (''dateInput'', \<lambda>el. Some (Leaf DateInput
          ([KeyProp (get el ''id''), ElementProp el, WidthProp w] @ widgetProps))),
       (''radio'', \<lambda>el. Some (Leaf Radio
          ([KeyProp (get el ''id''), ElementProp el, WidthProp w] @ widgetProps))),
       (''selectbox'', \<lambda>el. Some (Leaf Selectbox
          ([KeyProp (get el ''id''), ElementProp el, WidthProp w] @ widgetProps))),
       (''slider'', \<lambda>el. Some (Leaf Slider
          ([KeyProp (get el ''id''), ElementProp el, WidthProp w] @ widgetProps))),
       (''textArea'', \<lambda>el. Some (Leaf TextArea
          ([KeyProp (get el ''id''), ElementProp el, WidthProp w] @ widgetProps))),
       (''textInput'', \<lambda>el. Some (Leaf TextInput
          ([KeyProp (get el ''id''), ElementProp el, WidthProp w] @ widgetProps))),
       (''timeInput'', \<lambda>el. Some (Leaf TimeInput
          ([KeyProp (get el ''id''), ElementProp el, WidthProp w] @ widgetProps))),
       (''numberInput'', \<lambda>el. Some (Leaf NumberInput
          ([KeyProp (get el ''id''), ElementProp el, WidthProp w] @ widgetProps)))])"

text \<open>
  \<^verbatim>\<open>renderElement\<close>. The parameter \<^verbatim>\<open>width\<close> is assigned to when the metadata
  carries a dimension spec with a positive width; \<^verbatim>\<open>height\<close> stays
  \<^verbatim>\<open>undefined\<close> unless the spec has a positive height.
\<close>

definition renderElement ::
  "Props \<Rightarrow> SimpleElement option \<Rightarrow> nat \<Rightarrow> int \<Rightarrow> ForwardMsgMetadata option
     \<Rightarrow> error + ReactNode option" where
  "renderElement props el index w md =
     (case el of
        None \<Rightarrow> Inl TransmissionError
      | Some e \<Rightarrow>
          (let spec = (case md of None \<Rightarrow> None | Some m \<Rightarrow> elementDimensionSpec m);
               w' = (case spec of
                       None \<Rightarrow> w
                     | Some s \<Rightarrow> if width s > 0 then min (width s) w else w);
               h = (case spec of
                      None \<Rightarrow> None
                    | Some s \<Rightarrow> if height s > 0 then Some (height s) else None)
           in dispatchOneOf e ''type'' (dispatchTable props index w' h)))"

text \<open>The fallback of the \<^verbatim>\<open>Suspense\<close>: an \<^verbatim>\<open>Alert\<close> saying "Loading...".\<close>

definition loadingAlert :: "int \<Rightarrow> ReactNode" where
  "loadingAlert w =
     Leaf Alert [ElementProp (payload (makeElementWithInfoText ''Loading...'')), WidthProp w]"

text \<open>
  \<^verbatim>\<open>renderElementWithErrorBoundary\<close>. It reads \<^verbatim>\<open>element.get("type")\<close> first:
  on a missing payload that is a \<^verbatim>\<open>TypeError\<close>; on a List, which has no entry
  \<^verbatim>\<open>"type"\<close>, the tag read is \<^verbatim>\<open>undefined\<close>, for which the dispatch has no
  handler. \<^verbatim>\<open>FullScreenWrapper.isFullScreen\<close> is a static flag of another
  component, taken as the argument \<open>isFullScreen\<close>. The call of
  \<^verbatim>\<open>renderElement\<close> comes before the JSX is built, so what it throws leaves
  the method.
\<close>

definition renderElementWithErrorBoundary ::
  "Props \<Rightarrow> bool \<Rightarrow> ReportElement \<Rightarrow> nat \<Rightarrow> int \<Rightarrow> error + ReactNode option" where
  "renderElementWithErrorBoundary props isFullScreen reportElement index w =
     (case element reportElement of
        None \<Rightarrow> Inl TypeError
      | Some (Block b) \<Rightarrow> Inl (CannotHandle ''type'' None)
      | Some (Simple el) \<Rightarrow>
          if type el = ''empty'' then Inr (Some (Div index ''stEmpty'' None []))
          else
            (case renderElement props (Some el) index w (metadata reportElement) of
               Inl e \<Rightarrow> Inl e
             | Inr component \<Rightarrow>
                 (let isStale = (showStaleElementIndicator props
                                  \<and> isElementStale props reportElement);
                      className = (if isStale \<and> \<not> isFullScreen
                                   then ''element-container stale-element''
                                   else ''element-container'')
                  in Inr (Some (Div index className (Some w)
                       [ErrorBoundaryNode w [SuspenseNode (loadingAlert w) component]])))))"

definition renderElements :: "Props \<Rightarrow> bool \<Rightarrow> int \<Rightarrow> error + ReactNode option list" where
  "renderElements props isFullScreen w =
     (let elementsToRender = getElements props in
      case mapIndexed
             (\<lambda>reportElement index.
                (case element reportElement of
                   Some (Block b) \<Rightarrow> Inr (Some (renderBlock props b index w))
                 | _ \<Rightarrow> renderElementWithErrorBoundary props isFullScreen reportElement index w))
             0 elementsToRender of
        Inl e \<Rightarrow> Inl e
      | Inr nodes \<Rightarrow> Inr (filter (\<lambda>node. node \<noteq> None) nodes))"

section \<open>Vocabulary of the statements\<close>

text \<open>The tags of the dispatch table, in the order of the source.\<close>

definition supportedTags :: "string list" where
  "supportedTags =
     [''alert'', ''audio'', ''balloons'', ''bokehChart'', ''chart'', ''dataFrame'',
      ''deckGlChart'', ''docString'', ''empty'', ''exception'', ''graphvizChart'',
      ''imgs'', ''json'', ''markdown'', ''multiselect'', ''plotlyChart'', ''progress'',
      ''table'', ''text'', ''vegaLiteChart'', ''video'', ''button'', ''checkbox'',
      ''dateInput'', ''radio'', ''selectbox'', ''slider'', ''textArea'', ''textInput'',
      ''timeInput'', ''numberInput'']"

text \<open>
  The flat table the specification speaks of, from type tag to leaf component,
  written down on its own to be compared with \<open>dispatchTable\<close>.
\<close>

definition leafComponents :: "(string \<times> Component) list" where
  "leafComponents =
     [(''alert'', Alert), (''audio'', Audio), (''balloons'', Balloons),
      (''bokehChart'', BokehChart), (''chart'', Chart), (''dataFrame'', DataFrame),
      (''deckGlChart'', DeckGlChart), (''docString'', DocString),
      (''exception'', ExceptionElement), (''graphvizChart'', GraphVizChart),
      (''imgs'', ImageList), (''json'', Json), (''markdown'', Markdown),
      (''multiselect'', Multiselect), (''plotlyChart'', PlotlyChart),
      (''progress'', Progress), (''table'', Table), (''text'', Text),
      (''vegaLiteChart'', VegaLiteChart), (''video'', Video), (''button'', Button),
      (''checkbox'', Checkbox), (''dateInput'', DateInput), (''radio'', Radio),
      (''selectbox'', Selectbox), (''slider'', Slider), (''textArea'', TextArea),
      (''textInput'', TextInput), (''timeInput'', TimeInput),
      (''numberInput'', NumberInput)]"

fun isLeaf :: "ReactNode \<Rightarrow> bool" where
  "isLeaf (Leaf c ps) = True"
| "isLeaf _ = False"

fun isBlock :: "ReportElement \<Rightarrow> bool" where
  "isBlock (ReportElement (Some (Block b)) rid md) = True"
| "isBlock _ = False"


text \<open>
  An element \<^verbatim>\<open>renderElements\<close> can render: a block, or a simple element whose
  tag is in the table.
\<close>

fun renderable :: "ReportElement \<Rightarrow> bool" where
  "renderable (ReportElement (Some (Block b)) rid md) = True"
| "renderable (ReportElement (Some (Simple el)) rid md) = (type el \<in> set supportedTags)"
| "renderable (ReportElement None rid md) = False"

text \<open>The \<^verbatim>\<open>key\<close> of a node, for the nodes that have one.\<close>

fun nodeKey :: "ReactNode \<Rightarrow> nat option" where
  "nodeKey (Div k c s cs) = Some k"
| "nodeKey _ = None"

text \<open>
  The wrapper of a leaf: an error boundary whose only child is a suspension
  node, with the "Loading..." alert of the boundary's width as fallback; the
  child of the suspension node is a leaf component, if there is a child.
\<close>

fun wrapper :: "ReactNode \<Rightarrow> bool" where
  "wrapper (ErrorBoundaryNode w [SuspenseNode fallback child]) =
     (fallback = loadingAlert w \<and> (case child of None \<Rightarrow> True | Some n \<Rightarrow> isLeaf n))"
| "wrapper _ = False"

text \<open>The leaves of a node that are not inside a wrapper.\<close>

fun bareLeaves :: "ReactNode \<Rightarrow> ReactNode list" where
  "bareLeaves (Leaf c ps) = [Leaf c ps]"
| "bareLeaves (Div k c s cs) = concat (map bareLeaves cs)"
| "bareLeaves (ErrorBoundaryNode w cs) =
     (if wrapper (ErrorBoundaryNode w cs) then [] else concat (map bareLeaves cs))"
| "bareLeaves (SuspenseNode fallback child) =
     bareLeaves fallback @ (case child of None \<Rightarrow> [] | Some n \<Rightarrow> bareLeaves n)"
| "bareLeaves (BlockNode props) = []"

text \<open>
  The dimension spec of a metadata, when the metadata is there and carries one
  (\<^verbatim>\<open>metadata && metadata.elementDimensionSpec\<close>).
\<close>

definition dimensionSpec :: "ForwardMsgMetadata option \<Rightarrow> ElementDimensionSpec option" where
  "dimensionSpec md = (case md of None \<Rightarrow> None | Some m \<Rightarrow> elementDimensionSpec m)"

text \<open>
  The effective width as the specification words it: the minimum of the spec
  width and the container width when there is a dimension spec with a positive
  width, the container width otherwise.
\<close>

definition effectiveWidth :: "ForwardMsgMetadata option \<Rightarrow> int \<Rightarrow> int" where
  "effectiveWidth md containerWidth =
     (case dimensionSpec md of
        Some spec \<Rightarrow> if width spec > 0 then min (width spec) containerWidth else containerWidth
      | None \<Rightarrow> containerWidth)"

text \<open>The height as the specification words it: passed only when the spec height is positive.\<close>

definition passedHeight :: "ForwardMsgMetadata option \<Rightarrow> int option" where
  "passedHeight md =
     (case dimensionSpec md of
        Some spec \<Rightarrow> if height spec > 0 then Some (height spec) else None
      | None \<Rightarrow> None)"

text \<open>The class name of the container \<^verbatim>\<open>div\<close> of a leaf.\<close>

definition containerClass :: "Props \<Rightarrow> bool \<Rightarrow> ReportElement \<Rightarrow> string" where
  "containerClass props isFullScreen reportElement =
     (if showStaleElementIndicator props \<and> isElementStale props reportElement \<and> \<not> isFullScreen
      then ''element-container stale-element'' else ''element-container'')"

text \<open>The callback \<^verbatim>\<open>renderElements\<close> gives to \<^verbatim>\<open>map\<close>, under a name.\<close>

definition renderChild ::
  "Props \<Rightarrow> bool \<Rightarrow> int \<Rightarrow> ReportElement \<Rightarrow> nat \<Rightarrow> error + ReactNode option" where
  "renderChild props isFullScreen w reportElement index =
     (case element reportElement of
        Some (Block b) \<Rightarrow> Inr (Some (renderBlock props b index w))
      | _ \<Rightarrow> renderElementWithErrorBoundary props isFullScreen reportElement index w)"

section \<open>The methods with their assignments written out\<close>

text \<open>
  The same methods as state transformers, to say what a call leaves as it was.
  The store holds the two things the methods read that outlive a call,
  \<^verbatim>\<open>this.props\<close> and the static flag \<^verbatim>\<open>FullScreenWrapper.isFullScreen\<close>, and
  the three variables the methods assign to after declaring them:
  \<^verbatim>\<open>elementsToRender\<close> of \<^verbatim>\<open>getElements\<close> (lines 107 and 112), the parameter
  \<^verbatim>\<open>width\<close> of \<^verbatim>\<open>renderElement\<close> (line 230) and its local \<^verbatim>\<open>height\<close> (lines 225
  and 233). Every other name of the source is a \<^verbatim>\<open>const\<close> or a parameter that is
  never assigned to.

  Immutable Lists and Maps have no operation that changes them in place, and
  \<^verbatim>\<open>toArray\<close>, \<^verbatim>\<open>map\<close> and \<^verbatim>\<open>filter\<close> return new arrays; so the element tree is
  a value held by \<^verbatim>\<open>this.props\<close>, and changing it means assigning to
  \<^verbatim>\<open>this.props\<close>, which a state transformer on this store can do.
\<close>

record Store =
  thisProps :: Props
  fullScreenFlag :: bool
  varElementsToRender :: BlockElement
  varWidth :: int
  varHeight :: "int option"

text \<open>\<^verbatim>\<open>getElements\<close>: the declaration at line 107, the assignment at line 112.\<close>

definition getElementsS :: "Store \<Rightarrow> BlockElement \<times> Store" where
  "getElementsS s =
     (let s1 = s\<lparr>varElementsToRender := elements (thisProps s)\<rparr> in
      if reportRunState (thisProps s1) = RUNNING then
        (let s2 = s1\<lparr>varElementsToRender :=
                map (\<lambda>(index, reportElement).
                       (case element reportElement of
                          Some (Simple el) \<Rightarrow>
                            (let isEmpty = (type el = ''empty'') in
                             if isEmpty
                             then listGet (varElementsToRender s1) index reportElement
                             else reportElement)
                        | _ \<Rightarrow> reportElement))
                    (enumerate 0 (elements (thisProps s1)))\<rparr>
         in (varElementsToRender s2, s2))
      else (varElementsToRender s1, s1))"

text \<open>
  What \<^verbatim>\<open>renderElement\<close> does to its variables once the payload is known to
  be there: the parameter \<^verbatim>\<open>width\<close> is bound, \<^verbatim>\<open>height\<close> is declared
  (\<^verbatim>\<open>undefined\<close>), and lines 228 to 235 assign to them.
\<close>

definition renderElementLocals :: "int \<Rightarrow> ForwardMsgMetadata option \<Rightarrow> Store \<Rightarrow> Store" where
  "renderElementLocals w md s =
     (let s1 = s\<lparr>varWidth := w, varHeight := None\<rparr> in
      case (case md of None \<Rightarrow> None | Some m \<Rightarrow> elementDimensionSpec m) of
        None \<Rightarrow> s1
      | Some spec \<Rightarrow>
          (let s2 = (if width spec > 0
                     then s1\<lparr>varWidth := min (width spec) (varWidth s1)\<rparr> else s1)
           in if height spec > 0 then s2\<lparr>varHeight := Some (height spec)\<rparr> else s2))"

definition renderElementS ::
  "SimpleElement option \<Rightarrow> nat \<Rightarrow> int \<Rightarrow> ForwardMsgMetadata option \<Rightarrow> Store
     \<Rightarrow> (error + ReactNode option) \<times> Store" where
  "renderElementS el index w md s =
     (case el of
        None \<Rightarrow> (Inl TransmissionError, s\<lparr>varWidth := w\<rparr>)
      | Some e \<Rightarrow>
          (let s1 = renderElementLocals w md s in
           (dispatchOneOf e ''type''
              (dispatchTable (thisProps s1) index (varWidth s1) (varHeight s1)), s1)))"

text \<open>
  \<^verbatim>\<open>renderElementWithErrorBoundary\<close>. On a List payload the tag read is
  \<^verbatim>\<open>undefined\<close> and \<^verbatim>\<open>renderElement\<close> is entered before the dispatch finds no
  handler.
\<close>

definition renderElementWithErrorBoundaryS ::
  "ReportElement \<Rightarrow> nat \<Rightarrow> int \<Rightarrow> Store \<Rightarrow> (error + ReactNode option) \<times> Store" where
  "renderElementWithErrorBoundaryS reportElement index w s =
     (case element reportElement of
        None \<Rightarrow> (Inl TypeError, s)
      | Some (Block b) \<Rightarrow>
          (Inl (CannotHandle ''type'' None), renderElementLocals w (metadata reportElement) s)
      | Some (Simple el) \<Rightarrow>
          if type el = ''empty'' then (Inr (Some (Div index ''stEmpty'' None [])), s)
          else
            (case renderElementS (Some el) index w (metadata reportElement) s of
               (Inl e, s1) \<Rightarrow> (Inl e, s1)
             | (Inr component, s1) \<Rightarrow>
                 (let isStale = (showStaleElementIndicator (thisProps s1)
                                  \<and> isElementStale (thisProps s1) reportElement);
                      className = (if isStale \<and> \<not> fullScreenFlag s1
                                   then ''element-container stale-element''
                                   else ''element-container'')
                  in (Inr (Some (Div index className (Some w)
                        [ErrorBoundaryNode w [SuspenseNode (loadingAlert w) component]])), s1))))"

text \<open>\<^verbatim>\<open>array.map(callback)\<close> with a callback that may throw and may assign.\<close>

fun mapIndexedS ::
  "('a \<Rightarrow> nat \<Rightarrow> Store \<Rightarrow> (error + 'b) \<times> Store) \<Rightarrow> nat \<Rightarrow> 'a list \<Rightarrow> Store
     \<Rightarrow> (error + 'b list) \<times> Store" where
  "mapIndexedS f index [] s = (Inr [], s)"
| "mapIndexedS f index (x # xs) s =
     (case f x index s of
        (Inl e, s1) \<Rightarrow> (Inl e, s1)
      | (Inr y, s1) \<Rightarrow>
          (case mapIndexedS f (Suc index) xs s1 of
             (Inl e, s2) \<Rightarrow> (Inl e, s2)
           | (Inr ys, s2) \<Rightarrow> (Inr (y # ys), s2)))"

definition renderElementsS :: "int \<Rightarrow> Store \<Rightarrow> (error + ReactNode option list) \<times> Store" where
  "renderElementsS w s =
     (case getElementsS s of
        (elementsToRender, s1) \<Rightarrow>
          (case mapIndexedS
                  (\<lambda>reportElement index st.
                     (case element reportElement of
                        Some (Block b) \<Rightarrow>
                          (Inr (Some (renderBlock (thisProps st) b index w)), st)
                      | _ \<Rightarrow> renderElementWithErrorBoundaryS reportElement index w st))
                  0 elementsToRender s1 of
             (Inl e, s2) \<Rightarrow> (Inl e, s2)
           | (Inr nodes, s2) \<Rightarrow> (Inr (filter (\<lambda>node. node \<noteq> None) nodes), s2)))"

text \<open>Two stores with the same \<^verbatim>\<open>this.props\<close> and the same static flag.\<close>

definition sameObjects :: "Store \<Rightarrow> Store \<Rightarrow> bool" where
  "sameObjects s t \<longleftrightarrow> thisProps t = thisProps s \<and> fullScreenFlag t = fullScreenFlag s"

section \<open>The entry for empty elements made abstract\<close>

text \<open>
  To say that a piece of code is not reached, the piece is made a parameter
  that may do anything a handler can do, raise included, and the result is
  shown not to depend on it. \<open>dispatchTableWith\<close> is the table of the source with
  the handler \<open>emptyHandler\<close> in place of \<^verbatim>\<open>empty: () => undefined\<close>; the
  other entries are those of \<open>dispatchTable\<close>, and none of them raises.
  \<open>renderElementWith\<close> and \<open>renderElementWithErrorBoundaryWith\<close> are the two
  methods over that table, statement for statement.
\<close>

definition dispatchTableWith ::
  "(ImmutableMap \<Rightarrow> error + ReactNode option) \<Rightarrow> Props \<Rightarrow> nat \<Rightarrow> int \<Rightarrow> int option
     \<Rightarrow> (string \<times> (ImmutableMap \<Rightarrow> error + ReactNode option)) list" where
  "dispatchTableWith emptyHandler props index w h =
     map (\<lambda>(tag, handler).
            (tag, if tag = ''empty'' then emptyHandler else (\<lambda>el. Inr (handler el))))
         (dispatchTable props index w h)"

definition renderElementWith ::
  "(ImmutableMap \<Rightarrow> error + ReactNode option) \<Rightarrow> Props \<Rightarrow> SimpleElement option \<Rightarrow> nat \<Rightarrow> int
     \<Rightarrow> ForwardMsgMetadata option \<Rightarrow> error + ReactNode option" where
  "renderElementWith emptyHandler props el index w md =
     (case el of
        None \<Rightarrow> Inl TransmissionError
      | Some e \<Rightarrow>
          (let spec = (case md of None \<Rightarrow> None | Some m \<Rightarrow> elementDimensionSpec m);
               w' = (case spec of
                       None \<Rightarrow> w
                     | Some s \<Rightarrow> if width s > 0 then min (width s) w else w);
               h = (case spec of
                      None \<Rightarrow> None
                    | Some s \<Rightarrow> if height s > 0 then Some (height s) else None)
           in case dispatchOneOf e ''type'' (dispatchTableWith emptyHandler props index w' h) of
                Inl err \<Rightarrow> Inl err
              | Inr result \<Rightarrow> result))"

definition renderElementWithErrorBoundaryWith ::
  "(ImmutableMap \<Rightarrow> error + ReactNode option) \<Rightarrow> Props \<Rightarrow> bool \<Rightarrow> ReportElement \<Rightarrow> nat \<Rightarrow> int
     \<Rightarrow> error + ReactNode option" where
  "renderElementWithErrorBoundaryWith emptyHandler props isFullScreen reportElement index w =
     (case element reportElement of
        None \<Rightarrow> Inl TypeError
      | Some (Block b) \<Rightarrow> Inl (CannotHandle ''type'' None)
      | Some (Simple el) \<Rightarrow>
          if type el = ''empty'' then Inr (Some (Div index ''stEmpty'' None []))
          else
            (case renderElementWith emptyHandler props (Some el) index w (metadata reportElement) of
               Inl e \<Rightarrow> Inl e
             | Inr component \<Rightarrow>
                 (let isStale = (showStaleElementIndicator props
                                  \<and> isElementStale props reportElement);
                      className = (if isStale \<and> \<not> isFullScreen
                                   then ''element-container stale-element''
                                   else ''element-container'')
                  in Inr (Some (Div index className (Some w)
                       [ErrorBoundaryNode w [SuspenseNode (loadingAlert w) component]])))))"

section \<open>Example inputs\<close>

definition exampleProps :: "ReportRunState \<Rightarrow> BlockElement \<Rightarrow> Props" where
  "exampleProps runState es =
     \<lparr>elements = es, reportId = ''report-2'', reportRunState = runState,
      showStaleElementIndicator = True, widgetMgr = WidgetStateManager 7,
      widgetsDisabled = False\<rparr>"

definition emptyElement :: ReportElement where
  "emptyElement =
     ReportElement (Some (Simple \<lparr>type = ''empty'', payload = []\<rparr>)) ''report-2'' None"

definition textElement :: ReportElement where
  "textElement =
     ReportElement (Some (Simple \<lparr>type = ''text'', payload = [(''body'', ''hello'')]\<rparr>))
       ''report-1'' None"

definition sliderElement :: ReportElement where
  "sliderElement =
     ReportElement (Some (Simple \<lparr>type = ''slider'', payload = [(''id'', ''s1'')]\<rparr>))
       ''report-2''
       (Some \<lparr>elementDimensionSpec = Some \<lparr>width = 50, height = 0\<rparr>\<rparr>)"

definition missingElement :: ReportElement where
  "missingElement = ReportElement None ''report-2'' None"

definition blockElement :: ReportElement where
  "blockElement = ReportElement (Some (Block [textElement, emptyElement])) ''report-2'' None"

definition exampleMetadata :: "int \<Rightarrow> int \<Rightarrow> ForwardMsgMetadata option" where
  "exampleMetadata sw sh = Some \<lparr>elementDimensionSpec = Some \<lparr>width = sw, height = sh\<rparr>\<rparr>"

definition exampleStore :: "Props \<Rightarrow> Store" where
  "exampleStore props =
     \<lparr>thisProps = props, fullScreenFlag = False, varElementsToRender = [],
      varWidth = 0, varHeight = None\<rparr>"

section \<open>Auxiliary facts\<close>

lemma getElements_elements: "getElements props = elements props"
proof (cases "reportRunState props = RUNNING")
  case False
  then show ?thesis by (simp add: getElements_def)
next
  case True
  have "map (\<lambda>(index, reportElement).
               (case element reportElement of
                  Some (Simple el) \<Rightarrow>
                    (let isEmpty = (type el = ''empty'') in
                     if isEmpty then listGet (elements props) index reportElement
                     else reportElement)
                | _ \<Rightarrow> reportElement))
            (enumerate 0 (elements props)) = elements props"
    by (rule nth_equalityI)
       (auto simp: nth_enumerate_eq listGet_def split: option.splits Element.splits)
  with True show ?thesis by (simp add: getElements_def)
qed

lemma dispatchTable_tags: "map fst (dispatchTable props index w h) = supportedTags"
  by (simp add: dispatchTable_def supportedTags_def Let_def)

lemma leafComponents_tags: "set (map fst leafComponents) = set supportedTags - {''empty''}"
  by (auto simp: leafComponents_def supportedTags_def)

lemma handler_leaf:
  "map_of leafComponents t = Some c \<Longrightarrow>
   \<exists>f. map_of (dispatchTable props index w h) t = Some f \<and>
       (\<forall>el. \<exists>ps. f el = Some (Leaf c ps) \<and> ElementProp el \<in> set ps \<and> WidthProp w \<in> set ps)"
  by (auto simp: leafComponents_def dispatchTable_def Let_def split: if_splits)

lemma handler_empty:
  "map_of (dispatchTable props index w h) ''empty'' = Some (\<lambda>el. None)"
  by (simp add: dispatchTable_def Let_def)

lemma handler_none:
  "t \<notin> set supportedTags \<Longrightarrow> map_of (dispatchTable props index w h) t = None"
  using dispatchTable_tags[of props index w h] by (metis map_of_eq_None_iff set_map)

lemma mapIndexed_length: "mapIndexed f i xs = Inr ys \<Longrightarrow> length ys = length xs"
  by (induction xs arbitrary: i ys) (auto split: sum.splits)

lemma mapIndexed_nth:
  "mapIndexed f i xs = Inr ys \<Longrightarrow> k < length xs \<Longrightarrow> f (xs ! k) (i + k) = Inr (ys ! k)"
proof (induction xs arbitrary: i ys k)
  case Nil
  then show ?case by simp
next
  case (Cons x xs)
  from Cons.prems(1) obtain y zs where
    y: "f x i = Inr y" and zs: "mapIndexed f (Suc i) xs = Inr zs" and ys: "ys = y # zs"
    by (auto split: sum.splits)
  show ?case
  proof (cases k)
    case 0
    with y ys show ?thesis by simp
  next
    case (Suc j)
    with Cons.prems(2) have "j < length xs" by simp
    from Cons.IH[OF zs this] Suc ys show ?thesis by simp
  qed
qed

lemma mapIndexed_total:
  "(\<And>k. k < length xs \<Longrightarrow> \<exists>y. f (xs ! k) (i + k) = Inr y) \<Longrightarrow> \<exists>ys. mapIndexed f i xs = Inr ys"
proof (induction xs arbitrary: i)
  case Nil
  then show ?case by simp
next
  case (Cons x xs)
  from Cons.prems[of 0] obtain y where y: "f x i = Inr y" by auto
  have "\<And>k. k < length xs \<Longrightarrow> \<exists>y. f (xs ! k) (Suc i + k) = Inr y"
    using Cons.prems[of "Suc k" for k] by auto
  from Cons.IH[OF this] obtain ys where "mapIndexed f (Suc i) xs = Inr ys" by auto
  with y show ?case by simp
qed


lemma renderElement_Some:
  "renderElement props (Some e) index w md =
     (case map_of (dispatchTable props index (effectiveWidth md w) (passedHeight md)) (type e) of
        Some f \<Rightarrow> Inr (f (payload e))
      | None \<Rightarrow> Inl (CannotHandle ''type'' (Some (type e))))"
  by (simp add: renderElement_def dispatchOneOf_def oneofCase_def effectiveWidth_def
      passedHeight_def dimensionSpec_def Let_def)

lemma renderElement_leaf:
  assumes "map_of leafComponents (type e) = Some c"
  shows "\<exists>ps. renderElement props (Some e) index w md = Inr (Some (Leaf c ps))
           \<and> ElementProp (payload e) \<in> set ps \<and> WidthProp (effectiveWidth md w) \<in> set ps"
proof -
  from handler_leaf[OF assms, of props index "effectiveWidth md w" "passedHeight md"]
  obtain f where f: "map_of (dispatchTable props index (effectiveWidth md w) (passedHeight md)) (type e) = Some f"
    and l: "\<forall>el. \<exists>ps. f el = Some (Leaf c ps) \<and> ElementProp el \<in> set ps \<and> WidthProp (effectiveWidth md w) \<in> set ps"
    by blast
  from l obtain ps where "f (payload e) = Some (Leaf c ps)" "ElementProp (payload e) \<in> set ps"
    "WidthProp (effectiveWidth md w) \<in> set ps" by blast
  with f show ?thesis by (simp add: renderElement_Some)
qed

lemma renderElement_empty:
  "type e = ''empty'' \<Longrightarrow> renderElement props (Some e) index w md = Inr None"
  by (simp add: renderElement_Some handler_empty)

lemma renderElement_unsupported:
  "type e \<notin> set supportedTags \<Longrightarrow>
   renderElement props (Some e) index w md = Inl (CannotHandle ''type'' (Some (type e)))"
  by (simp add: renderElement_Some handler_none)

lemma supported_cases:
  "t \<in> set supportedTags \<Longrightarrow> t = ''empty'' \<or> (\<exists>c. map_of leafComponents t = Some c)"
proof -
  assume t: "t \<in> set supportedTags"
  show ?thesis
  proof (cases "t = ''empty''")
    case True then show ?thesis by simp
  next
    case False
    with t have "t \<in> set (map fst leafComponents)" unfolding leafComponents_tags by simp
    then have "t \<in> dom (map_of leafComponents)" by (simp add: dom_map_of_conv_image_fst)
    then show ?thesis by auto
  qed
qed

lemma leaf_supported:
  "map_of leafComponents t = Some c \<Longrightarrow> t \<in> set supportedTags \<and> t \<noteq> ''empty''"
proof -
  assume "map_of leafComponents t = Some c"
  then have "t \<in> set (map fst leafComponents)"
    by (metis domI dom_map_of_conv_image_fst set_map)
  then show ?thesis unfolding leafComponents_tags by simp
qed

lemma renderElement_Inr_cases:
  assumes "renderElement props (Some e) index w md = Inr c"
  shows "(type e = ''empty'' \<and> c = None)
         \<or> (type e \<noteq> ''empty'' \<and> (\<exists>comp ps. map_of leafComponents (type e) = Some comp \<and> c = Some (Leaf comp ps)))"
proof (cases "type e \<in> set supportedTags")
  case False
  with assms show ?thesis by (simp add: renderElement_unsupported)
next
  case True
  from supported_cases[OF this] show ?thesis
  proof
    assume "type e = ''empty''"
    with assms show ?thesis by (simp add: renderElement_empty)
  next
    assume "\<exists>c. map_of leafComponents (type e) = Some c"
    then obtain comp where comp: "map_of leafComponents (type e) = Some comp" by blast
    from renderElement_leaf[OF comp, of props index w md] assms leaf_supported[OF comp]
    show ?thesis using comp by auto
  qed
qed

lemma renderEWEB_empty:
  "element re = Some (Simple el) \<Longrightarrow> type el = ''empty'' \<Longrightarrow>
   renderElementWithErrorBoundary props fs re k w = Inr (Some (Div k ''stEmpty'' None []))"
  by (simp add: renderElementWithErrorBoundary_def)

lemma renderEWEB_simple:
  "element re = Some (Simple el) \<Longrightarrow> type el \<noteq> ''empty'' \<Longrightarrow>
   renderElementWithErrorBoundary props fs re k w =
     (case renderElement props (Some el) k w (metadata re) of
        Inl e \<Rightarrow> Inl e
      | Inr c \<Rightarrow> Inr (Some (Div k (containerClass props fs re) (Some w)
                   [ErrorBoundaryNode w [SuspenseNode (loadingAlert w) c]])))"
  by (simp add: renderElementWithErrorBoundary_def containerClass_def Let_def split: sum.splits)

lemma renderEWEB_Some:
  "renderElementWithErrorBoundary props fs re k w = Inr n \<Longrightarrow> \<exists>m. n = Some m"
  by (auto simp: renderElementWithErrorBoundary_def Let_def
      split: option.splits Element.splits if_splits sum.splits)

lemma renderChild_Some: "renderChild props fs w re k = Inr n \<Longrightarrow> \<exists>m. n = Some m"
  by (auto simp: renderChild_def dest: renderEWEB_Some split: option.splits Element.splits)

lemma renderElements_unfold:
  "renderElements props fs w =
     (case mapIndexed (renderChild props fs w) 0 (elements props) of
        Inl e \<Rightarrow> Inl e
      | Inr nodes \<Rightarrow> Inr (filter (\<lambda>node. node \<noteq> None) nodes))"
proof -
  have "(\<lambda>reportElement index.
           (case element reportElement of
              Some (Block b) \<Rightarrow> Inr (Some (renderBlock props b index w))
            | _ \<Rightarrow> renderElementWithErrorBoundary props fs reportElement index w))
        = renderChild props fs w"
    by (intro ext) (simp add: renderChild_def)
  then show ?thesis
    by (simp add: renderElements_def getElements_elements)
qed

lemma mapIndexed_all_Some:
  assumes "mapIndexed f i xs = Inr ys" and "\<And>x k y. f x k = Inr y \<Longrightarrow> y \<noteq> None"
  shows "filter (\<lambda>node. node \<noteq> None) ys = ys"
proof -
  have "\<forall>y \<in> set ys. y \<noteq> None"
  proof
    fix y assume "y \<in> set ys"
    then obtain k where k: "k < length ys" "ys ! k = y" by (auto simp: in_set_conv_nth)
    with mapIndexed_length[OF assms(1)] have "k < length xs" by simp
    from mapIndexed_nth[OF assms(1) this] k assms(2) show "y \<noteq> None" by metis
  qed
  then show ?thesis by (simp add: filter_id_conv)
qed

lemma renderElements_Inr:
  "renderElements props fs w = Inr nodes \<longleftrightarrow>
   mapIndexed (renderChild props fs w) 0 (elements props) = Inr nodes"
proof
  assume "renderElements props fs w = Inr nodes"
  then obtain ys where ys: "mapIndexed (renderChild props fs w) 0 (elements props) = Inr ys"
    and n: "nodes = filter (\<lambda>node. node \<noteq> None) ys"
    by (auto simp: renderElements_unfold split: sum.splits)
  have "filter (\<lambda>node. node \<noteq> None) ys = ys"
    by (rule mapIndexed_all_Some[OF ys]) (auto dest: renderChild_Some)
  with ys n show "mapIndexed (renderChild props fs w) 0 (elements props) = Inr nodes" by simp
next
  assume ys: "mapIndexed (renderChild props fs w) 0 (elements props) = Inr nodes"
  have "filter (\<lambda>node. node \<noteq> None) nodes = nodes"
    by (rule mapIndexed_all_Some[OF ys]) (auto dest: renderChild_Some)
  with ys show "renderElements props fs w = Inr nodes" by (simp add: renderElements_unfold)
qed


lemma renderElements_nth:
  assumes "renderElements props fs w = Inr nodes"
  shows "length nodes = length (elements props)"
    and "k < length (elements props) \<Longrightarrow> renderChild props fs w (elements props ! k) k = Inr (nodes ! k)"
proof -
  from assms have m: "mapIndexed (renderChild props fs w) 0 (elements props) = Inr nodes"
    by (simp add: renderElements_Inr)
  from mapIndexed_length[OF m] show "length nodes = length (elements props)" .
  assume "k < length (elements props)"
  from mapIndexed_nth[of "renderChild props fs w" 0 "elements props" nodes k, OF m this]
  show "renderChild props fs w (elements props ! k) k = Inr (nodes ! k)"
    by simp
qed


lemma renderElements_total:
  assumes "\<And>k. k < length (elements props) \<Longrightarrow> \<exists>n. renderChild props fs w (elements props ! k) k = Inr n"
  shows "\<exists>nodes. renderElements props fs w = Inr nodes"
proof -
  have "\<exists>ys. mapIndexed (renderChild props fs w) 0 (elements props) = Inr ys"
    by (rule mapIndexed_total) (use assms in simp)
  then show ?thesis by (simp add: renderElements_Inr)
qed


lemma renderChild_block:
  "element re = Some (Block b) \<Longrightarrow> renderChild props fs w re k = Inr (Some (renderBlock props b k w))"
  by (simp add: renderChild_def)

lemma renderChild_other:
  "\<not> isBlock re \<Longrightarrow> renderChild props fs w re k = renderElementWithErrorBoundary props fs re k w"
  by (cases re rule: isBlock.cases) (simp_all add: renderChild_def)

lemma isBlock_iff: "isBlock re \<longleftrightarrow> (\<exists>b. element re = Some (Block b))"
  by (cases re rule: isBlock.cases) simp_all

lemmas example_defs = exampleProps_def textElement_def emptyElement_def sliderElement_def
  missingElement_def blockElement_def exampleMetadata_def

lemmas run_defs = renderElements_def getElements_def renderElementWithErrorBoundary_def
  renderElement_def dispatchOneOf_def oneofCase_def dispatchTable_def renderBlock_def
  isElementStale_def listGet_def loadingAlert_def makeElementWithInfoText_def get_def
  enumerate_eq_zip Let_def

lemmas spec_defs = dimensionSpec_def effectiveWidth_def passedHeight_def exampleMetadata_def

lemma renderable_cases:
  "renderable re \<longleftrightarrow> (\<exists>b. element re = Some (Block b))
      \<or> (\<exists>el. element re = Some (Simple el) \<and> type el \<in> set supportedTags)"
  by (cases re rule: renderable.cases) simp_all

lemma renderEWEB_supported:
  assumes "element re = Some (Simple el)" and "type el \<in> set supportedTags"
  shows "\<exists>n. renderElementWithErrorBoundary props fs re k w = Inr (Some n) \<and> nodeKey n = Some k"
proof (cases "type el = ''empty''")
  case True
  with assms show ?thesis by (simp add: renderEWEB_empty)
next
  case False
  with supported_cases[OF assms(2)] obtain c where c: "map_of leafComponents (type el) = Some c"
    by blast
  from renderElement_leaf[OF c, of props k w "metadata re"] assms(1) False
  show ?thesis by (auto simp: renderEWEB_simple)
qed

lemma handler_props:
  "map_of (dispatchTable props index w h) t = Some f \<Longrightarrow> f el = Some (Leaf c ps) \<Longrightarrow>
   (\<forall>x. WidthProp x \<in> set ps \<longrightarrow> x = w) \<and> (\<forall>y. HeightProp y \<in> set ps \<longrightarrow> y = h)
   \<and> (\<forall>z. ElementProp z \<in> set ps \<longrightarrow> z = el)"
  by (auto simp: dispatchTable_def Let_def split: if_splits)

lemma renderElement_leaf_props:
  assumes "renderElement props (Some e) index w md = Inr (Some (Leaf c ps))"
  shows "(\<forall>x. WidthProp x \<in> set ps \<longrightarrow> x = effectiveWidth md w)
         \<and> (\<forall>y. HeightProp y \<in> set ps \<longrightarrow> y = passedHeight md)
         \<and> (\<forall>z. ElementProp z \<in> set ps \<longrightarrow> z = payload e)"
proof -
  from assms obtain f where
    f: "map_of (dispatchTable props index (effectiveWidth md w) (passedHeight md)) (type e) = Some f"
    and r: "f (payload e) = Some (Leaf c ps)"
    by (auto simp: renderElement_Some split: option.splits)
  from handler_props[OF f r] show ?thesis .
qed

lemma renderElement_leaf_has:
  assumes "renderElement props (Some e) index w md = Inr (Some (Leaf c ps))"
  shows "WidthProp (effectiveWidth md w) \<in> set ps \<and> ElementProp (payload e) \<in> set ps
         \<and> map_of leafComponents (type e) = Some c"
proof -
  from renderElement_Inr_cases[OF assms] obtain comp ps' where
    c: "map_of leafComponents (type e) = Some comp" "Some (Leaf c ps) = Some (Leaf comp ps')"
    by auto
  from renderElement_leaf[OF c(1), of props index w md] assms c show ?thesis by auto
qed

lemma effectiveWidth_le: "effectiveWidth md w \<le> w"
  by (simp add: effectiveWidth_def split: option.splits)

lemma renderEWEB_no_bare_leaf:
  assumes "renderElementWithErrorBoundary props fs re k w = Inr (Some n)"
  shows "bareLeaves n = []"
proof -
  from assms obtain el where el: "element re = Some (Simple el)"
    by (auto simp: renderElementWithErrorBoundary_def split: option.splits Element.splits)
  show ?thesis
  proof (cases "type el = ''empty''")
    case True
    with assms el show ?thesis by (auto simp: renderEWEB_empty)
  next
    case False
    with assms el obtain c where c: "renderElement props (Some el) k w (metadata re) = Inr c"
      "n = Div k (containerClass props fs re) (Some w)
             [ErrorBoundaryNode w [SuspenseNode (loadingAlert w) c]]"
      by (auto simp: renderEWEB_simple split: sum.splits)
    from renderElement_Inr_cases[OF c(1)] False obtain comp ps where "c = Some (Leaf comp ps)"
      by auto
    with c(2) show ?thesis by simp
  qed
qed

lemma renderChild_no_bare_leaf:
  assumes "renderChild props fs w re k = Inr (Some n)"
  shows "bareLeaves n = []"
proof (cases "isBlock re")
  case True
  then obtain b where "element re = Some (Block b)" by (auto simp: isBlock_iff)
  with assms show ?thesis by (auto simp: renderChild_block renderBlock_def)
next
  case False
  with assms show ?thesis by (simp add: renderChild_other renderEWEB_no_bare_leaf)
qed

lemma sameObjects_refl: "sameObjects s s"
  by (simp add: sameObjects_def)

lemma sameObjects_trans: "sameObjects s t \<Longrightarrow> sameObjects t u \<Longrightarrow> sameObjects s u"
  by (simp add: sameObjects_def)

lemma getElementsS_result: "fst (getElementsS s) = getElements (thisProps s)"
  by (auto simp: getElementsS_def getElements_def Let_def split: option.splits Element.splits)

lemma getElementsS_frame: "sameObjects s (snd (getElementsS s))"
  by (simp add: getElementsS_def sameObjects_def Let_def)

lemma renderElementLocals_frame: "sameObjects s (renderElementLocals w md s)"
  by (simp add: renderElementLocals_def sameObjects_def Let_def split: option.splits)

lemma renderElementLocals_width:
  "varWidth (renderElementLocals w md s) = effectiveWidth md w"
  by (simp add: renderElementLocals_def effectiveWidth_def dimensionSpec_def Let_def
      split: option.splits)

lemma renderElementLocals_height:
  "varHeight (renderElementLocals w md s) = passedHeight md"
  by (simp add: renderElementLocals_def passedHeight_def dimensionSpec_def Let_def
      split: option.splits)

lemma renderElementS_frame: "sameObjects s (snd (renderElementS el k w md s))"
  using renderElementLocals_frame[of s w md]
  by (simp add: renderElementS_def sameObjects_def Let_def split: option.splits)

lemma renderElementS_result:
  "fst (renderElementS el k w md s) = renderElement (thisProps s) el k w md"
proof (cases el)
  case None
  then show ?thesis by (simp add: renderElementS_def renderElement_def)
next
  case (Some e)
  have "thisProps (renderElementLocals w md s) = thisProps s"
    using renderElementLocals_frame[of s w md] by (simp add: sameObjects_def)
  with Some show ?thesis
    by (simp add: renderElementS_def Let_def renderElementLocals_width
        renderElementLocals_height renderElement_Some dispatchOneOf_def oneofCase_def)
qed

lemma renderEWEBS_frame: "sameObjects s (snd (renderElementWithErrorBoundaryS re k w s))"
proof (cases "element re")
  case None
  then show ?thesis by (simp add: renderElementWithErrorBoundaryS_def sameObjects_refl)
next
  case (Some p)
  show ?thesis
  proof (cases p)
    case (Block b)
    with Some show ?thesis
      by (simp add: renderElementWithErrorBoundaryS_def renderElementLocals_frame)
  next
    case (Simple el)
    obtain res s1 where rs: "renderElementS (Some el) k w (metadata re) s = (res, s1)"
      by (cases "renderElementS (Some el) k w (metadata re) s")
    with renderElementS_frame[of s "Some el" k w "metadata re"] have "sameObjects s s1" by simp
    with Some Simple rs show ?thesis
      by (simp add: renderElementWithErrorBoundaryS_def sameObjects_refl Let_def
          split: sum.splits)
  qed
qed

lemma renderEWEBS_result:
  "fst (renderElementWithErrorBoundaryS re k w s)
     = renderElementWithErrorBoundary (thisProps s) (fullScreenFlag s) re k w"
proof -
  have r: "fst (renderElementS el k w md s) = renderElement (thisProps s) el k w md" for el md
    by (rule renderElementS_result)
  have f: "sameObjects s (snd (renderElementS el k w md s))" for el md
    by (rule renderElementS_frame)
  show ?thesis
  proof (cases "element re")
    case None
    then show ?thesis
      by (simp add: renderElementWithErrorBoundaryS_def renderElementWithErrorBoundary_def)
  next
    case (Some p)
    show ?thesis
    proof (cases p)
      case (Block b)
      with Some show ?thesis
        by (simp add: renderElementWithErrorBoundaryS_def renderElementWithErrorBoundary_def)
    next
      case (Simple el)
      obtain res s1 where rs: "renderElementS (Some el) k w (metadata re) s = (res, s1)"
        by (cases "renderElementS (Some el) k w (metadata re) s")
      with r[of "Some el" "metadata re"] f[of "Some el" "metadata re"]
      have "res = renderElement (thisProps s) (Some el) k w (metadata re)"
        "thisProps s1 = thisProps s" "fullScreenFlag s1 = fullScreenFlag s"
        by (simp_all add: sameObjects_def)
      with Some Simple rs show ?thesis
        by (simp add: renderElementWithErrorBoundaryS_def renderElementWithErrorBoundary_def
            Let_def split: sum.splits)
    qed
  qed
qed

lemma mapIndexedS_refines:
  assumes "\<And>x i t. sameObjects s0 t \<Longrightarrow> fst (f x i t) = g x i \<and> sameObjects s0 (snd (f x i t))"
  shows "sameObjects s0 s \<Longrightarrow>
         fst (mapIndexedS f i xs s) = mapIndexed g i xs \<and> sameObjects s0 (snd (mapIndexedS f i xs s))"
proof (induction xs arbitrary: i s)
  case Nil
  then show ?case by simp
next
  case (Cons x xs)
  obtain r s1 where fx: "f x i s = (r, s1)" by (cases "f x i s")
  with assms[OF Cons.prems, of x i] have r: "r = g x i" and s1: "sameObjects s0 s1" by simp_all
  obtain r2 s2 where m: "mapIndexedS f (Suc i) xs s1 = (r2, s2)"
    by (cases "mapIndexedS f (Suc i) xs s1")
  with Cons.IH[OF s1, of "Suc i"] have r2: "r2 = mapIndexed g (Suc i) xs" and s2: "sameObjects s0 s2"
    by simp_all
  from fx m r r2 s1 s2 show ?case by (simp split: sum.splits)
qed

lemma renderElementsS_both:
  "fst (renderElementsS w s) = renderElements (thisProps s) (fullScreenFlag s) w
   \<and> sameObjects s (snd (renderElementsS w s))"
proof -
  let ?f = "\<lambda>reportElement index st.
                     (case element reportElement of
                        Some (Block b) \<Rightarrow>
                          (Inr (Some (renderBlock (thisProps st) b index w)), st)
                      | _ \<Rightarrow> renderElementWithErrorBoundaryS reportElement index w st)"
  obtain es s1 where g: "getElementsS s = (es, s1)" by (cases "getElementsS s")
  with getElementsS_result[of s] getElementsS_frame[of s]
  have es: "es = elements (thisProps s)" and s1: "sameObjects s s1"
    by (simp_all add: getElements_elements)
  have step: "fst (?f x i t) = renderChild (thisProps s) (fullScreenFlag s) w x i
              \<and> sameObjects s (snd (?f x i t))" if "sameObjects s t" for x i t
  proof -
    from that have eq: "thisProps t = thisProps s" "fullScreenFlag t = fullScreenFlag s"
      by (simp_all add: sameObjects_def)
    from renderEWEBS_frame[of t x i w] that
    have "sameObjects s (snd (renderElementWithErrorBoundaryS x i w t))"
      by (rule sameObjects_trans[rotated])
    with that eq renderEWEBS_result[of x i w t] show ?thesis
      by (auto simp: renderChild_def split: option.splits Element.splits)
  qed
  obtain r s2 where m: "mapIndexedS ?f 0 es s1 = (r, s2)" by (cases "mapIndexedS ?f 0 es s1")
  from mapIndexedS_refines[of s ?f "renderChild (thisProps s) (fullScreenFlag s) w" s1 0 es,
      OF step s1] m
  have r: "r = mapIndexed (renderChild (thisProps s) (fullScreenFlag s) w) 0 es"
    and s2: "sameObjects s s2" by simp_all
  from g m r s2 es show ?thesis
    by (simp add: renderElementsS_def renderElements_unfold split: sum.splits)
qed

lemma map_of_map_entry:
  "map_of (map (\<lambda>(k, v). (k, g k v)) xs) t = map_option (g t) (map_of xs t)"
  by (induction xs) auto

lemma dispatchTableWith_lookup:
  "map_of (dispatchTableWith eh props index w h) t =
     map_option (\<lambda>handler. if t = ''empty'' then eh else (\<lambda>el. Inr (handler el)))
       (map_of (dispatchTable props index w h) t)"
  unfolding dispatchTableWith_def by (rule map_of_map_entry)

lemma renderElementWith_Some:
  "renderElementWith eh props (Some e) index w md =
     (case map_of (dispatchTable props index (effectiveWidth md w) (passedHeight md)) (type e) of
        Some f \<Rightarrow> if type e = ''empty'' then eh (payload e) else Inr (f (payload e))
      | None \<Rightarrow> Inl (CannotHandle ''type'' (Some (type e))))"
  by (simp add: renderElementWith_def dispatchOneOf_def oneofCase_def effectiveWidth_def
      passedHeight_def dimensionSpec_def Let_def dispatchTableWith_lookup split: option.splits)

lemma renderElementWith_other:
  "type e \<noteq> ''empty'' \<Longrightarrow>
   renderElementWith eh props (Some e) index w md = renderElement props (Some e) index w md"
  by (simp add: renderElementWith_Some renderElement_Some split: option.splits)

lemma renderElementWith_empty:
  "type e = ''empty'' \<Longrightarrow> renderElementWith eh props (Some e) index w md = eh (payload e)"
  by (simp add: renderElementWith_Some handler_empty)

lemma renderElementWith_source:
  "renderElementWith (\<lambda>el. Inr None) props el index w md = renderElement props el index w md"
proof (cases el)
  case None
  then show ?thesis by (simp add: renderElementWith_def renderElement_def)
next
  case (Some e)
  then show ?thesis
    by (cases "type e = ''empty''")
       (simp_all add: renderElementWith_other renderElementWith_empty renderElement_empty)
qed

lemma renderEWEBWith_any:
  "renderElementWithErrorBoundaryWith eh props fs re k w
     = renderElementWithErrorBoundary props fs re k w"
  by (simp add: renderElementWithErrorBoundaryWith_def renderElementWithErrorBoundary_def
      renderElementWith_other split: option.splits Element.splits)

lemmas store_defs = renderElementsS_def getElementsS_def renderElementWithErrorBoundaryS_def
  renderElementS_def renderElementLocals_def exampleStore_def

section \<open>Placeholders for empty elements while the report runs\<close>

text \<open>
  C1. The comment in \<^verbatim>\<open>getElements\<close> says that, while the report runs, the most
  recent list of rendered elements stands in for the empty elements. The code
  does not do that: the list it reads in the callback is the list it maps
  over, so the element found at the index is the empty element itself. Here the
  report runs and the second element is empty; what \<^verbatim>\<open>getElements\<close> returns at
  index 1 is that empty element, and the list returned is the input list.
\<close>

theorem getElements_running_returns_empty:
  "getElements (exampleProps RUNNING [textElement, emptyElement]) ! 1 = emptyElement
   \<and> getElements (exampleProps RUNNING [textElement, emptyElement])
       = [textElement, emptyElement]"
  by (simp add: getElements_def exampleProps_def textElement_def emptyElement_def
      listGet_def enumerate_eq_zip)

section \<open>Missing payloads and the dispatch of renderElement\<close>

text \<open>
  C2, as amended. \<^verbatim>\<open>renderElement\<close> raises "Transmission error." exactly when
  the payload it is given is missing. On a payload that is there and whose tag
  is one of the table it returns without raising: a leaf node for every such
  tag but \<^verbatim>\<open>empty\<close>, and \<^verbatim>\<open>undefined\<close> for \<^verbatim>\<open>empty\<close>.
\<close>

theorem renderElement_transmission_error:
  "(renderElement props el index w md = Inl TransmissionError \<longleftrightarrow> el = None)
   \<and> (type e \<in> set supportedTags \<longrightarrow>
        (\<exists>c. renderElement props (Some e) index w md = Inr c
             \<and> (c = None \<longleftrightarrow> type e = ''empty'')
             \<and> (\<forall>n. c = Some n \<longrightarrow> isLeaf n)))"
proof (intro conjI impI)
  show "renderElement props el index w md = Inl TransmissionError \<longleftrightarrow> el = None"
  proof (cases el)
    case None
    then show ?thesis by (simp add: renderElement_def)
  next
    case (Some a)
    then show ?thesis by (simp add: renderElement_Some split: option.splits)
  qed
next
  assume "type e \<in> set supportedTags"
  from supported_cases[OF this]
  show "\<exists>c. renderElement props (Some e) index w md = Inr c
             \<and> (c = None \<longleftrightarrow> type e = ''empty'')
             \<and> (\<forall>n. c = Some n \<longrightarrow> isLeaf n)"
  proof
    assume "type e = ''empty''"
    then show ?thesis by (simp add: renderElement_empty)
  next
    assume "\<exists>c. map_of leafComponents (type e) = Some c"
    then obtain c where c: "map_of leafComponents (type e) = Some c" by blast
    from renderElement_leaf[OF c, of props index w md] leaf_supported[OF c]
    show ?thesis by auto
  qed
qed

text \<open>
  At the tag \<^verbatim>\<open>text\<close>: the missing payload raises, and the text element gets
  a leaf.
\<close>

theorem renderElement_transmission_error_witness:
  "renderElement (exampleProps (OTHER ''not-running'') [textElement]) None 1 100 None
     = Inl TransmissionError
   \<and> ''text'' \<in> set supportedTags
   \<and> (\<exists>c. renderElement (exampleProps (OTHER ''not-running'') [textElement])
             (Some \<lparr>type = ''text'', payload = [(''body'', ''hello'')]\<rparr>) 1 100 None = Inr (Some c)
           \<and> isLeaf c)"
proof -
  let ?P = "exampleProps (OTHER ''not-running'') [textElement]"
  let ?t = "\<lparr>type = ''text'', payload = [(''body'', ''hello'')]\<rparr>"
  have tag: "type ?t \<in> set supportedTags" by (simp add: supportedTags_def)
  note t = renderElement_transmission_error[of ?P None 1 100 None ?t]
  from t have a: "renderElement ?P None 1 100 None = Inl TransmissionError" by simp
  from t tag obtain c where c: "renderElement ?P (Some ?t) 1 100 None = Inr c"
    "c = None \<longleftrightarrow> type ?t = ''empty''" "\<forall>n. c = Some n \<longrightarrow> isLeaf n"
    by blast
  from c(2) obtain n where "c = Some n" by auto
  with c have "\<exists>c. renderElement ?P (Some ?t) 1 100 None = Inr (Some c) \<and> isLeaf c" by simp
  with a tag show ?thesis by simp
qed

text \<open>
  What the specification says beyond that does not hold. A list with a text element
  and an element whose payload is missing renders to nothing at all: the
  \<^verbatim>\<open>TypeError\<close> of \<^verbatim>\<open>element.get("type")\<close> leaves \<^verbatim>\<open>renderElements\<close>, although
  the text element alone renders. And for the tag \<^verbatim>\<open>empty\<close>, a tag of the
  table, \<^verbatim>\<open>renderElement\<close> returns \<^verbatim>\<open>undefined\<close>, not a node.
\<close>

theorem missing_payload_fails_whole_list:
  "renderElements (exampleProps (OTHER ''not-running'') [textElement, missingElement]) False 100
     = Inl TypeError
   \<and> renderElements (exampleProps (OTHER ''not-running'') [textElement]) False 100
     = Inr [Some (Div 0 ''element-container'' (Some 100)
              [ErrorBoundaryNode 100
                 [SuspenseNode (loadingAlert 100)
                    (Some (Leaf Text [ElementProp [(''body'', ''hello'')], WidthProp 100]))]])]
   \<and> renderElement (exampleProps (OTHER ''not-running'') [textElement])
        (Some \<lparr>type = ''empty'', payload = []\<rparr>) 0 100 None = Inr None"
  by (simp add: example_defs run_defs)

section \<open>One node per element\<close>

text \<open>
  C3, as amended. When every element of the list is a block or a simple
  element whose tag is one of the table, \<^verbatim>\<open>renderElements\<close> returns one node
  per element, in the order of the list: the node at index \<open>k\<close> has key \<open>k\<close>;
  for a block it is the \<^verbatim>\<open>stBlock\<close> container of a nested \<^verbatim>\<open>Block\<close> over the
  child's elements, with the report id, run state, stale-indicator flag,
  widget manager and disabled flag of the parent; for a simple element it is
  what \<^verbatim>\<open>renderElementWithErrorBoundary\<close> returns for it.
\<close>

theorem renderElements_mirrors_input:
  assumes "\<forall>re \<in> set (elements props). renderable re"
  shows "\<exists>nodes. renderElements props fs w = Inr nodes
           \<and> length nodes = length (elements props)
           \<and> (\<forall>k < length (elements props).
                 \<exists>n. nodes ! k = Some n \<and> nodeKey n = Some k
                   \<and> (case element (elements props ! k) of
                         Some (Block b) \<Rightarrow>
                           (\<exists>child. n = Div k ''stBlock'' (Some w) [BlockNode child]
                              \<and> elements child = b
                              \<and> Props.reportId child = Props.reportId props
                              \<and> reportRunState child = reportRunState props
                              \<and> showStaleElementIndicator child = showStaleElementIndicator props
                              \<and> widgetMgr child = widgetMgr props
                              \<and> widgetsDisabled child = widgetsDisabled props)
                       | _ \<Rightarrow>
                           renderElementWithErrorBoundary props fs (elements props ! k) k w
                             = Inr (Some n)))"
proof -
  have each: "\<exists>n. renderChild props fs w (elements props ! k) k = Inr (Some n) \<and> nodeKey n = Some k"
    if k: "k < length (elements props)" for k
  proof -
    from k assms have "renderable (elements props ! k)" by simp
    then show ?thesis unfolding renderable_cases
    proof
      assume "\<exists>b. element (elements props ! k) = Some (Block b)"
      then show ?thesis by (auto simp: renderChild_block renderBlock_def)
    next
      assume "\<exists>el. element (elements props ! k) = Some (Simple el) \<and> type el \<in> set supportedTags"
      then obtain el where el: "element (elements props ! k) = Some (Simple el)"
        "type el \<in> set supportedTags" by blast
      then have "\<not> isBlock (elements props ! k)" by (simp add: isBlock_iff)
      with renderEWEB_supported[OF el, of props fs k w] show ?thesis
        by (simp add: renderChild_other)
    qed
  qed
  then have "\<exists>nodes. renderElements props fs w = Inr nodes"
    by (intro renderElements_total) blast
  then obtain nodes where nodes: "renderElements props fs w = Inr nodes" by blast
  note nth = renderElements_nth[OF nodes]
  have "\<exists>n. nodes ! k = Some n \<and> nodeKey n = Some k
          \<and> (case element (elements props ! k) of
                Some (Block b) \<Rightarrow>
                  (\<exists>child. n = Div k ''stBlock'' (Some w) [BlockNode child]
                     \<and> elements child = b
                     \<and> Props.reportId child = Props.reportId props
                     \<and> reportRunState child = reportRunState props
                     \<and> showStaleElementIndicator child = showStaleElementIndicator props
                     \<and> widgetMgr child = widgetMgr props
                     \<and> widgetsDisabled child = widgetsDisabled props)
              | _ \<Rightarrow>
                  renderElementWithErrorBoundary props fs (elements props ! k) k w = Inr (Some n))"
    if k: "k < length (elements props)" for k
  proof -
    from each[OF k] obtain n where n: "renderChild props fs w (elements props ! k) k = Inr (Some n)"
      "nodeKey n = Some k" by blast
    with nth(2)[OF k] have nk: "nodes ! k = Some n" by simp
    show ?thesis
    proof (cases "isBlock (elements props ! k)")
      case True
      then obtain b where b: "element (elements props ! k) = Some (Block b)"
        by (auto simp: isBlock_iff)
      with n have "n = renderBlock props b k w" by (simp add: renderChild_block)
      with nk n(2) b show ?thesis by (simp add: renderBlock_def)
    next
      case False
      with n have "renderElementWithErrorBoundary props fs (elements props ! k) k w = Inr (Some n)"
        by (simp add: renderChild_other)
      with nk n(2) False show ?thesis
        by (auto simp: isBlock_iff split: option.splits Element.splits)
    qed
  qed
  with nodes nth(1) show ?thesis by blast
qed

text \<open>A slider, a block and an empty element, while the report runs.\<close>

theorem renderElements_mirrors_input_witness:
  "renderable sliderElement \<and> renderable blockElement \<and> renderable emptyElement
   \<and> (\<exists>nodes. renderElements (exampleProps RUNNING [sliderElement, blockElement, emptyElement])
                  False 100 = Inr nodes
         \<and> length nodes = 3
         \<and> nodes ! 1 = Some (Div 1 ''stBlock'' (Some 100)
                          [BlockNode (exampleProps RUNNING [textElement, emptyElement])])
         \<and> nodes ! 2 = Some (Div 2 ''stEmpty'' None []))"
proof -
  let ?P = "exampleProps RUNNING [sliderElement, blockElement, emptyElement]"
  have r: "\<forall>re \<in> set (elements ?P). renderable re"
    by (simp add: example_defs supportedTags_def)
  from renderElements_mirrors_input[OF r, of False 100]
  obtain nodes where nodes: "renderElements ?P False 100 = Inr nodes"
    "length nodes = length (elements ?P)" by blast
  have "renderElements ?P False 100
     = Inr [Some (Div 0 ''element-container'' (Some 100)
              [ErrorBoundaryNode 100
                 [SuspenseNode (loadingAlert 100)
                    (Some (Leaf Slider [KeyProp (Some ''s1''), ElementProp [(''id'', ''s1'')],
                       WidthProp 50, WidgetMgrProp (WidgetStateManager 7), DisabledProp False]))]]),
            Some (Div 1 ''stBlock'' (Some 100)
              [BlockNode (exampleProps RUNNING [textElement, emptyElement])]),
            Some (Div 2 ''stEmpty'' None [])]"
    by (simp add: example_defs run_defs)
  with nodes(1) have "nodes = [Some (Div 0 ''element-container'' (Some 100)
              [ErrorBoundaryNode 100
                 [SuspenseNode (loadingAlert 100)
                    (Some (Leaf Slider [KeyProp (Some ''s1''), ElementProp [(''id'', ''s1'')],
                       WidthProp 50, WidgetMgrProp (WidgetStateManager 7), DisabledProp False]))]]),
            Some (Div 1 ''stBlock'' (Some 100)
              [BlockNode (exampleProps RUNNING [textElement, emptyElement])]),
            Some (Div 2 ''stEmpty'' None [])]"
    by simp
  then have "length nodes = 3"
    "nodes ! 1 = Some (Div 1 ''stBlock'' (Some 100)
                          [BlockNode (exampleProps RUNNING [textElement, emptyElement])])"
    "nodes ! 2 = Some (Div 2 ''stEmpty'' None [])"
    by simp_all
  moreover have "renderable sliderElement \<and> renderable blockElement \<and> renderable emptyElement"
    by (simp add: example_defs supportedTags_def)
  ultimately show ?thesis using nodes(1) by blast
qed

text \<open>
  Without the condition on the elements the statement fails: a list of a block
  and an element with a missing payload gives no node.
\<close>

theorem renderElements_raises_on_missing_payload:
  "renderElements (exampleProps RUNNING [blockElement, missingElement]) True 640 = Inl TypeError"
  by (simp add: example_defs run_defs)

section \<open>The dispatch table\<close>

text \<open>
  C4, as amended. The table of \<^verbatim>\<open>renderElement\<close> has 31 tags, all different.
  Each tag but \<^verbatim>\<open>empty\<close> has one leaf component, which depends on the tag
  alone (not on the props, the index, the width, the metadata or the payload),
  and the 30 components are all different; \<^verbatim>\<open>empty\<close> has no component:
  \<^verbatim>\<open>renderElement\<close> returns \<^verbatim>\<open>undefined\<close> for it.
\<close>

theorem dispatch_table_flat:
  "map fst (dispatchTable props index w h) = supportedTags
   \<and> distinct supportedTags \<and> length supportedTags = 31
   \<and> set (map fst leafComponents) = set supportedTags - {''empty''}
   \<and> distinct (map snd leafComponents) \<and> length leafComponents = 30
   \<and> (map_of leafComponents (type e) = Some c \<longrightarrow>
        (\<exists>ps. renderElement props (Some e) index w md = Inr (Some (Leaf c ps))))
   \<and> (type e = ''empty'' \<longrightarrow> renderElement props (Some e) index w md = Inr None)"
proof (intro conjI impI)
  show "map fst (dispatchTable props index w h) = supportedTags" by (rule dispatchTable_tags)
  show "distinct supportedTags" by (simp add: supportedTags_def)
  show "length supportedTags = 31" by (simp add: supportedTags_def)
  show "set (map fst leafComponents) = set supportedTags - {''empty''}"
    by (rule leafComponents_tags)
  show "distinct (map snd leafComponents)" by (simp add: leafComponents_def)
  show "length leafComponents = 30" by (simp add: leafComponents_def)
next
  assume "map_of leafComponents (type e) = Some c"
  from renderElement_leaf[OF this, of props index w md]
  show "\<exists>ps. renderElement props (Some e) index w md = Inr (Some (Leaf c ps))" by blast
next
  assume "type e = ''empty''"
  then show "renderElement props (Some e) index w md = Inr None" by (rule renderElement_empty)
qed

text \<open>At the tags \<^verbatim>\<open>video\<close> and \<^verbatim>\<open>empty\<close>.\<close>

theorem dispatch_table_flat_witness:
  "map_of leafComponents ''video'' = Some Video
   \<and> (\<exists>ps. renderElement (exampleProps RUNNING [])
              (Some \<lparr>type = ''video'', payload = [(''url'', ''a.mp4'')]\<rparr>) 4 300 None
            = Inr (Some (Leaf Video ps)))
   \<and> renderElement (exampleProps RUNNING []) (Some \<lparr>type = ''empty'', payload = []\<rparr>) 4 300 None
       = Inr None"
proof -
  have v: "map_of leafComponents ''video'' = Some Video" by (simp add: leafComponents_def)
  note t1 = dispatch_table_flat[of "exampleProps RUNNING []" 4 300 None
      "\<lparr>type = ''video'', payload = [(''url'', ''a.mp4'')]\<rparr>" Video None]
  note t2 = dispatch_table_flat[of "exampleProps RUNNING []" 4 300 None
      "\<lparr>type = ''empty'', payload = []\<rparr>" Video None]
  from t1 v have "\<exists>ps. renderElement (exampleProps RUNNING [])
              (Some \<lparr>type = ''video'', payload = [(''url'', ''a.mp4'')]\<rparr>) 4 300 None
            = Inr (Some (Leaf Video ps))" by simp
  moreover from t2 have "renderElement (exampleProps RUNNING [])
      (Some \<lparr>type = ''empty'', payload = []\<rparr>) 4 300 None = Inr None" by simp
  ultimately show ?thesis using v by blast
qed

text \<open>
  The tag \<^verbatim>\<open>empty\<close> is one of the table, and what the table gives for it is
  no component.
\<close>

theorem empty_tag_has_no_component:
  "''empty'' \<in> set supportedTags
   \<and> renderElement (exampleProps RUNNING [])
        (Some \<lparr>type = ''empty'', payload = [(''id'', ''e1'')]\<rparr>) 3 200 None = Inr None"
  by (simp add: supportedTags_def example_defs run_defs)

section \<open>One branch per node\<close>




section \<open>Error boundary and suspension around every leaf\<close>

text \<open>
  C6. For a simple element whose tag has a leaf component (every tag of the
  table but \<^verbatim>\<open>empty\<close>), \<^verbatim>\<open>renderElementWithErrorBoundary\<close> returns a container
  whose only child is an error boundary around a suspension node around the
  leaf, the fallback of the suspension node being the "Loading..." alert. Any
  node it returns for a simple element not of type \<^verbatim>\<open>empty\<close> is such a
  container, the child of the suspension node being what \<^verbatim>\<open>renderElement\<close>
  returned. In what \<^verbatim>\<open>renderElements\<close> returns, no leaf is outside such a
  wrapper.
\<close>

theorem leaf_inside_error_boundary:
  "(element re = Some (Simple el) \<and> map_of leafComponents (type el) = Some c \<longrightarrow>
      (\<exists>cls ps. renderElementWithErrorBoundary props fs re k w =
         Inr (Some (Div k cls (Some w)
           [ErrorBoundaryNode w [SuspenseNode (loadingAlert w) (Some (Leaf c ps))]]))))
   \<and> (element re = Some (Simple el) \<and> type el \<noteq> ''empty''
        \<and> renderElementWithErrorBoundary props fs re k w = Inr (Some n) \<longrightarrow>
        (\<exists>cls component. n = Div k cls (Some w)
           [ErrorBoundaryNode w [SuspenseNode (loadingAlert w) component]]
           \<and> renderElement props (Some el) k w (metadata re) = Inr component))
   \<and> (renderElements props fs w = Inr nodes \<longrightarrow>
        (\<forall>m. Some m \<in> set nodes \<longrightarrow> bareLeaves m = []))
   \<and> loadingAlert w =
       Leaf Alert [ElementProp (payload (makeElementWithInfoText ''Loading...'')), WidthProp w]"
proof (intro conjI impI)
  assume a: "element re = Some (Simple el) \<and> map_of leafComponents (type el) = Some c"
  then have ne: "type el \<noteq> ''empty''" using leaf_supported by blast
  from a renderElement_leaf[of el c props k w "metadata re"]
  obtain ps where "renderElement props (Some el) k w (metadata re) = Inr (Some (Leaf c ps))"
    by blast
  with a ne show "\<exists>cls ps. renderElementWithErrorBoundary props fs re k w =
         Inr (Some (Div k cls (Some w)
           [ErrorBoundaryNode w [SuspenseNode (loadingAlert w) (Some (Leaf c ps))]]))"
    by (simp add: renderEWEB_simple)
next
  assume a: "element re = Some (Simple el) \<and> type el \<noteq> ''empty''
        \<and> renderElementWithErrorBoundary props fs re k w = Inr (Some n)"
  then obtain c where c: "renderElement props (Some el) k w (metadata re) = Inr c"
      "n = Div k (containerClass props fs re) (Some w)
             [ErrorBoundaryNode w [SuspenseNode (loadingAlert w) c]]"
    by (auto simp: renderEWEB_simple split: sum.splits)
  then show "\<exists>cls component. n = Div k cls (Some w)
           [ErrorBoundaryNode w [SuspenseNode (loadingAlert w) component]]
           \<and> renderElement props (Some el) k w (metadata re) = Inr component"
    by blast
next
  assume r: "renderElements props fs w = Inr nodes"
  show "\<forall>m. Some m \<in> set nodes \<longrightarrow> bareLeaves m = []"
  proof (intro allI impI)
    fix m assume "Some m \<in> set nodes"
    then obtain k where k: "k < length nodes" "nodes ! k = Some m"
      by (auto simp: in_set_conv_nth)
    with renderElements_nth(1)[OF r] have kl: "k < length (elements props)" by simp
    from renderElements_nth(2)[OF r kl] k(2)
    have "renderChild props fs w (elements props ! k) k = Inr (Some m)" by simp
    then show "bareLeaves m = []" by (rule renderChild_no_bare_leaf)
  qed
next
  show "loadingAlert w =
       Leaf Alert [ElementProp (payload (makeElementWithInfoText ''Loading...'')), WidthProp w]"
    by (simp add: loadingAlert_def)
qed

text \<open>A slider and an empty element.\<close>

theorem leaf_inside_error_boundary_witness:
  "element sliderElement = Some (Simple \<lparr>type = ''slider'', payload = [(''id'', ''s1'')]\<rparr>)
   \<and> map_of leafComponents ''slider'' = Some Slider
   \<and> (\<exists>cls ps. renderElementWithErrorBoundary (exampleProps RUNNING [sliderElement, emptyElement])
          False sliderElement 0 100
        = Inr (Some (Div 0 cls (Some 100)
            [ErrorBoundaryNode 100 [SuspenseNode (loadingAlert 100) (Some (Leaf Slider ps))]])))
   \<and> (\<exists>nodes. renderElements (exampleProps RUNNING [sliderElement, emptyElement]) False 100
                  = Inr nodes
         \<and> length nodes = 2 \<and> list_all (\<lambda>m. m \<noteq> None \<and> bareLeaves (the m) = []) nodes)"
proof -
  let ?P = "exampleProps RUNNING [sliderElement, emptyElement]"
  let ?e = "\<lparr>type = ''slider'', payload = [(''id'', ''s1'')]\<rparr>"
  let ?n0 = "Div 0 ''element-container'' (Some 100)
              [ErrorBoundaryNode 100
                 [SuspenseNode (loadingAlert 100)
                    (Some (Leaf Slider [KeyProp (Some ''s1''), ElementProp [(''id'', ''s1'')],
                       WidthProp 50, WidgetMgrProp (WidgetStateManager 7), DisabledProp False]))]]"
  let ?nodes = "[Some ?n0, Some (Div 1 ''stEmpty'' None [])]"
  have h: "element sliderElement = Some (Simple ?e)" "map_of leafComponents (type ?e) = Some Slider"
    "type ?e \<noteq> ''empty''"
    by (simp_all add: sliderElement_def leafComponents_def)
  have r0: "renderElementWithErrorBoundary ?P False sliderElement 0 100 = Inr (Some ?n0)"
    by (simp add: example_defs run_defs)
  have r: "renderElements ?P False 100 = Inr ?nodes"
    by (simp add: example_defs run_defs)
  note t = leaf_inside_error_boundary[of sliderElement ?e Slider ?P False 0 100 ?n0 ?nodes]
  from t h have a: "\<exists>cls ps. renderElementWithErrorBoundary ?P False sliderElement 0 100
        = Inr (Some (Div 0 cls (Some 100)
            [ErrorBoundaryNode 100 [SuspenseNode (loadingAlert 100) (Some (Leaf Slider ps))]]))"
    by blast
  from t h r0 have "\<exists>cls component. ?n0 = Div 0 cls (Some 100)
           [ErrorBoundaryNode 100 [SuspenseNode (loadingAlert 100) component]]
           \<and> renderElement ?P (Some ?e) 0 100 (metadata sliderElement) = Inr component"
    by blast
  from t r have "\<forall>m. Some m \<in> set ?nodes \<longrightarrow> bareLeaves m = []" by blast
  then have "list_all (\<lambda>m. m \<noteq> None \<and> bareLeaves (the m) = []) ?nodes" by simp
  with r have "\<exists>nodes. renderElements ?P False 100 = Inr nodes
         \<and> length nodes = 2 \<and> list_all (\<lambda>m. m \<noteq> None \<and> bareLeaves (the m) = []) nodes"
    by simp
  with h a show ?thesis by simp
qed

section \<open>Width and height of a leaf\<close>

text \<open>
  C7. The leaf \<^verbatim>\<open>renderElement\<close> returns has the effective width as its only
  width, and the effective width never exceeds the container width: it is the
  minimum of the spec width and the container width when the metadata carries
  a dimension spec with a positive width, and the container width otherwise.
  The only height a leaf is given is the spec height, and that only when it is
  positive.
\<close>

theorem leaf_width_within_container:
  "(map_of leafComponents (type e) = Some c \<longrightarrow>
      (\<exists>ps. renderElement props (Some e) index w md = Inr (Some (Leaf c ps))))
   \<and> (renderElement props (Some e) index w md = Inr (Some (Leaf c ps)) \<longrightarrow>
        WidthProp (effectiveWidth md w) \<in> set ps
        \<and> (\<forall>x. WidthProp x \<in> set ps \<longrightarrow> x = effectiveWidth md w \<and> x \<le> w)
        \<and> (\<forall>y. HeightProp y \<in> set ps \<longrightarrow> y = passedHeight md))
   \<and> effectiveWidth md w \<le> w
   \<and> (dimensionSpec md = Some spec \<and> width spec > 0 \<longrightarrow>
        effectiveWidth md w = min (width spec) w)
   \<and> (dimensionSpec md = None \<or> (dimensionSpec md = Some spec \<and> width spec \<le> 0) \<longrightarrow>
        effectiveWidth md w = w)
   \<and> (passedHeight md = Some y \<longrightarrow>
        (\<exists>s. dimensionSpec md = Some s \<and> height s = y \<and> y > 0))
   \<and> (dimensionSpec md = Some spec \<and> height spec > 0 \<longrightarrow> passedHeight md = Some (height spec))"
proof (intro conjI impI)
  assume "map_of leafComponents (type e) = Some c"
  from renderElement_leaf[OF this, of props index w md]
  show "\<exists>ps. renderElement props (Some e) index w md = Inr (Some (Leaf c ps))" by blast
next
  assume r: "renderElement props (Some e) index w md = Inr (Some (Leaf c ps))"
  from renderElement_leaf_has[OF r] show "WidthProp (effectiveWidth md w) \<in> set ps" by simp
  from renderElement_leaf_props[OF r] effectiveWidth_le[of md w]
  show "\<forall>x. WidthProp x \<in> set ps \<longrightarrow> x = effectiveWidth md w \<and> x \<le> w" by auto
  from renderElement_leaf_props[OF r]
  show "\<forall>y. HeightProp y \<in> set ps \<longrightarrow> y = passedHeight md" by simp
next
  show "effectiveWidth md w \<le> w" by (rule effectiveWidth_le)
next
  assume "dimensionSpec md = Some spec \<and> width spec > 0"
  then show "effectiveWidth md w = min (width spec) w" by (simp add: effectiveWidth_def)
next
  assume "dimensionSpec md = None \<or> (dimensionSpec md = Some spec \<and> width spec \<le> 0)"
  then show "effectiveWidth md w = w" by (auto simp: effectiveWidth_def)
next
  assume "passedHeight md = Some y"
  then show "\<exists>s. dimensionSpec md = Some s \<and> height s = y \<and> y > 0"
    by (auto simp: passedHeight_def split: option.splits if_splits)
next
  assume "dimensionSpec md = Some spec \<and> height spec > 0"
  then show "passedHeight md = Some (height spec)" by (simp add: passedHeight_def)
qed

text \<open>A data frame in a container of width 320, under three dimension specs.\<close>

theorem leaf_width_within_container_witness:
  "map_of leafComponents ''dataFrame'' = Some DataFrame
   \<and> renderElement (exampleProps RUNNING [])
        (Some \<lparr>type = ''dataFrame'', payload = [(''rows'', ''3'')]\<rparr>) 0 320 (exampleMetadata 400 30)
       = Inr (Some (Leaf DataFrame
           [ElementProp [(''rows'', ''3'')], WidthProp 320, HeightProp (Some 30)]))
   \<and> effectiveWidth (exampleMetadata 400 30) 320 = 320
   \<and> effectiveWidth (exampleMetadata 50 0) 320 = 50
   \<and> effectiveWidth (exampleMetadata 0 0) 320 = 320
   \<and> passedHeight (exampleMetadata 400 30) = Some 30
   \<and> passedHeight (exampleMetadata 50 0) = None"
proof -
  let ?P = "exampleProps RUNNING []"
  let ?e = "\<lparr>type = ''dataFrame'', payload = [(''rows'', ''3'')]\<rparr>"
  let ?ps = "[ElementProp [(''rows'', ''3'')], WidthProp 320, HeightProp (Some 30)]"
  have c: "map_of leafComponents (type ?e) = Some DataFrame" by (simp add: leafComponents_def)
  have r: "renderElement ?P (Some ?e) 0 320 (exampleMetadata 400 30) = Inr (Some (Leaf DataFrame ?ps))"
    by (simp add: example_defs run_defs)
  have d1: "dimensionSpec (exampleMetadata 400 30) = Some \<lparr>width = 400, height = 30\<rparr>
            \<and> width \<lparr>width = 400, height = 30\<rparr> > 0"
    and h1: "dimensionSpec (exampleMetadata 400 30) = Some \<lparr>width = 400, height = 30\<rparr>
            \<and> height \<lparr>width = 400, height = 30\<rparr> > 0"
    and d2: "dimensionSpec (exampleMetadata 50 0) = Some \<lparr>width = 50, height = 0\<rparr>
            \<and> width \<lparr>width = 50, height = 0\<rparr> > 0"
    and d3: "dimensionSpec (exampleMetadata 0 0) = None
            \<or> (dimensionSpec (exampleMetadata 0 0) = Some \<lparr>width = 0, height = 0\<rparr>
                \<and> width \<lparr>width = 0, height = 0\<rparr> \<le> 0)"
    by (simp_all add: spec_defs)
  note t1 = leaf_width_within_container[of ?e DataFrame ?P 0 320 "exampleMetadata 400 30" ?ps
      "\<lparr>width = 400, height = 30\<rparr>" 30]
  note t2 = leaf_width_within_container[of ?e DataFrame ?P 0 320 "exampleMetadata 50 0" ?ps
      "\<lparr>width = 50, height = 0\<rparr>" 30]
  note t3 = leaf_width_within_container[of ?e DataFrame ?P 0 320 "exampleMetadata 0 0" ?ps
      "\<lparr>width = 0, height = 0\<rparr>" 30]
  from t1 c have "\<exists>ps. renderElement ?P (Some ?e) 0 320 (exampleMetadata 400 30)
      = Inr (Some (Leaf DataFrame ps))" by blast
  from t1 r have "\<forall>x. WidthProp x \<in> set ?ps \<longrightarrow> x = effectiveWidth (exampleMetadata 400 30) 320 \<and> x \<le> 320"
    by blast
  then have a: "effectiveWidth (exampleMetadata 400 30) 320 = 320" by simp
  from t1 d1 have "effectiveWidth (exampleMetadata 400 30) 320 = min 400 320" by simp
  from t1 h1 have a': "passedHeight (exampleMetadata 400 30) = Some 30" by simp
  with t1 have "\<exists>s. dimensionSpec (exampleMetadata 400 30) = Some s \<and> height s = 30 \<and> (30::int) > 0"
    by blast
  from t2 d2 have b: "effectiveWidth (exampleMetadata 50 0) 320 = 50" by simp
  from t3 d3 have b': "effectiveWidth (exampleMetadata 0 0) 320 = 320" by blast
  have n: "passedHeight (exampleMetadata 50 0) = None" by (simp add: spec_defs)
  from c r a a' b b' n show ?thesis by simp
qed

section \<open>The input tree is only read\<close>

text \<open>
  C8. When the report is not running \<^verbatim>\<open>getElements\<close> returns the list of the
  props. And in every case a call of \<^verbatim>\<open>getElements\<close>, of \<^verbatim>\<open>renderElement\<close> or of
  \<^verbatim>\<open>renderElements\<close> leaves \<^verbatim>\<open>this.props\<close>, and with it the element tree, as it
  was before the call, whether the call returns or raises: what the methods
  assign to is their own variables. What each call returns is what the
  method returns on the props of the store it started from.
\<close>

theorem rendering_keeps_input_tree:
  "(reportRunState props \<noteq> RUNNING \<longrightarrow> getElements props = elements props)
   \<and> fst (getElementsS s) = getElements (thisProps s)
   \<and> thisProps (snd (getElementsS s)) = thisProps s
   \<and> fst (renderElementS el k w md s) = renderElement (thisProps s) el k w md
   \<and> thisProps (snd (renderElementS el k w md s)) = thisProps s
   \<and> fst (renderElementsS w s) = renderElements (thisProps s) (fullScreenFlag s) w
   \<and> thisProps (snd (renderElementsS w s)) = thisProps s
   \<and> fullScreenFlag (snd (renderElementsS w s)) = fullScreenFlag s"
proof (intro conjI impI)
  assume "reportRunState props \<noteq> RUNNING"
  then show "getElements props = elements props" by (simp add: getElements_def)
next
  show "fst (getElementsS s) = getElements (thisProps s)" by (rule getElementsS_result)
  show "thisProps (snd (getElementsS s)) = thisProps s"
    using getElementsS_frame[of s] by (simp add: sameObjects_def)
  show "fst (renderElementS el k w md s) = renderElement (thisProps s) el k w md"
    by (rule renderElementS_result)
  show "thisProps (snd (renderElementS el k w md s)) = thisProps s"
    using renderElementS_frame[of s el k w md] by (simp add: sameObjects_def)
  show "fst (renderElementsS w s) = renderElements (thisProps s) (fullScreenFlag s) w"
    using renderElementsS_both[of w s] by simp
  show "thisProps (snd (renderElementsS w s)) = thisProps s"
    using renderElementsS_both[of w s] by (simp add: sameObjects_def)
  show "fullScreenFlag (snd (renderElementsS w s)) = fullScreenFlag s"
    using renderElementsS_both[of w s] by (simp add: sameObjects_def)
qed

text \<open>
  After a rerun request \<^verbatim>\<open>getElements\<close> gives the list back. While the report
  runs, rendering a slider and an empty element changes the variables
  \<^verbatim>\<open>elementsToRender\<close> and \<^verbatim>\<open>width\<close> of the store and nothing else.
\<close>

theorem rendering_keeps_input_tree_witness:
  "reportRunState (exampleProps RERUN_REQUESTED [emptyElement, blockElement]) \<noteq> RUNNING
   \<and> getElements (exampleProps RERUN_REQUESTED [emptyElement, blockElement])
       = [emptyElement, blockElement]
   \<and> snd (renderElementsS 100 (exampleStore (exampleProps RUNNING [sliderElement, emptyElement])))
       = (exampleStore (exampleProps RUNNING [sliderElement, emptyElement]))
           \<lparr>varElementsToRender := [sliderElement, emptyElement], varWidth := 50\<rparr>
   \<and> thisProps (snd (renderElementsS 100
         (exampleStore (exampleProps RUNNING [sliderElement, emptyElement]))))
       = exampleProps RUNNING [sliderElement, emptyElement]"
proof -
  let ?P = "exampleProps RERUN_REQUESTED [emptyElement, blockElement]"
  let ?R = "exampleProps RUNNING [sliderElement, emptyElement]"
  have h: "reportRunState ?P \<noteq> RUNNING" by (simp add: exampleProps_def)
  note t = rendering_keeps_input_tree[of ?P "exampleStore ?R" None 0 100 None]
  from t h have "getElements ?P = elements ?P" by blast
  then have a: "getElements ?P = [emptyElement, blockElement]" by (simp add: exampleProps_def)
  from t have "thisProps (snd (renderElementsS 100 (exampleStore ?R))) = thisProps (exampleStore ?R)"
    by blast
  then have b: "thisProps (snd (renderElementsS 100 (exampleStore ?R))) = ?R"
    by (simp add: exampleStore_def)
  have c: "snd (renderElementsS 100 (exampleStore ?R))
       = (exampleStore ?R)\<lparr>varElementsToRender := [sliderElement, emptyElement], varWidth := 50\<rparr>"
    by (simp add: store_defs example_defs run_defs)
  from h a b c show ?thesis by simp
qed

section \<open>Stale elements\<close>

text \<open>
  C9. \<^verbatim>\<open>isElementStale\<close> holds exactly when a rerun was requested, or the
  report runs and the element's report id is not the current one; in every
  other run state it does not hold. The container of an element has the class
  of stale elements exactly when the stale-element indicator is shown, the
  full-screen flag is off, the element is stale, and the element is a simple
  element not of type \<^verbatim>\<open>empty\<close>.
\<close>

theorem stale_element_indicator:
  "(isElementStale props re \<longleftrightarrow>
      reportRunState props = RERUN_REQUESTED
      \<or> (reportRunState props = RUNNING \<and> ReportElement.reportId re \<noteq> Props.reportId props))
   \<and> (reportRunState props \<noteq> RERUN_REQUESTED \<and> reportRunState props \<noteq> RUNNING \<longrightarrow>
        \<not> isElementStale props re)
   \<and> (renderElementWithErrorBoundary props fs re k w = Inr (Some (Div k' cls st cs)) \<longrightarrow>
        (cls = ''element-container stale-element'' \<longleftrightarrow>
           showStaleElementIndicator props \<and> \<not> fs \<and> isElementStale props re
           \<and> (\<exists>el. element re = Some (Simple el) \<and> type el \<noteq> ''empty'')))"
proof (intro conjI impI)
  show "isElementStale props re \<longleftrightarrow>
      reportRunState props = RERUN_REQUESTED
      \<or> (reportRunState props = RUNNING \<and> ReportElement.reportId re \<noteq> Props.reportId props)"
    by (simp add: isElementStale_def)
next
  assume "reportRunState props \<noteq> RERUN_REQUESTED \<and> reportRunState props \<noteq> RUNNING"
  then show "\<not> isElementStale props re" by (simp add: isElementStale_def)
next
  assume r: "renderElementWithErrorBoundary props fs re k w = Inr (Some (Div k' cls st cs))"
  then obtain el where el: "element re = Some (Simple el)"
    by (auto simp: renderElementWithErrorBoundary_def split: option.splits Element.splits)
  show "cls = ''element-container stale-element'' \<longleftrightarrow>
           showStaleElementIndicator props \<and> \<not> fs \<and> isElementStale props re
           \<and> (\<exists>el. element re = Some (Simple el) \<and> type el \<noteq> ''empty'')"
  proof (cases "type el = ''empty''")
    case True
    with r el show ?thesis by (auto simp: renderEWEB_empty)
  next
    case False
    with r el have "cls = containerClass props fs re"
      by (auto simp: renderEWEB_simple split: sum.splits)
    with el False show ?thesis by (auto simp: containerClass_def)
  qed
qed

text \<open>A text element of an earlier report, in each run state.\<close>

theorem stale_element_indicator_witness:
  "isElementStale (exampleProps RUNNING [textElement]) textElement
   \<and> \<not> isElementStale (exampleProps RUNNING [sliderElement]) sliderElement
   \<and> isElementStale (exampleProps RERUN_REQUESTED [sliderElement]) sliderElement
   \<and> \<not> isElementStale (exampleProps (OTHER ''not-running'') [textElement]) textElement
   \<and> renderElementWithErrorBoundary (exampleProps RUNNING [textElement]) False textElement 0 100
       = Inr (Some (Div 0 ''element-container stale-element'' (Some 100)
           [ErrorBoundaryNode 100 [SuspenseNode (loadingAlert 100)
              (Some (Leaf Text [ElementProp [(''body'', ''hello'')], WidthProp 100]))]]))
   \<and> renderElementWithErrorBoundary (exampleProps RUNNING [textElement]) True textElement 0 100
       = Inr (Some (Div 0 ''element-container'' (Some 100)
           [ErrorBoundaryNode 100 [SuspenseNode (loadingAlert 100)
              (Some (Leaf Text [ElementProp [(''body'', ''hello'')], WidthProp 100]))]]))"
proof -
  let ?R = "exampleProps RUNNING [textElement]"
  let ?cs = "[ErrorBoundaryNode 100 [SuspenseNode (loadingAlert 100)
              (Some (Leaf Text [ElementProp [(''body'', ''hello'')], WidthProp 100]))]]"
  note t1 = stale_element_indicator[of ?R textElement False 0 100 0
      "''element-container stale-element''" "Some 100" ?cs]
  note t2 = stale_element_indicator[of "exampleProps RUNNING [sliderElement]" sliderElement]
  note t3 = stale_element_indicator[of "exampleProps RERUN_REQUESTED [sliderElement]" sliderElement]
  note t4 = stale_element_indicator[of "exampleProps (OTHER ''not-running'') [textElement]" textElement]
  have s1: "reportRunState ?R = RUNNING \<and> ReportElement.reportId textElement \<noteq> Props.reportId ?R"
    by (simp add: example_defs)
  with t1 have a: "isElementStale ?R textElement" by blast
  have "\<not> (reportRunState (exampleProps RUNNING [sliderElement]) = RERUN_REQUESTED
      \<or> (reportRunState (exampleProps RUNNING [sliderElement]) = RUNNING
          \<and> ReportElement.reportId sliderElement \<noteq> Props.reportId (exampleProps RUNNING [sliderElement])))"
    by (simp add: example_defs)
  with t2 have b: "\<not> isElementStale (exampleProps RUNNING [sliderElement]) sliderElement" by blast
  have "reportRunState (exampleProps RERUN_REQUESTED [sliderElement]) = RERUN_REQUESTED"
    by (simp add: example_defs)
  with t3 have c: "isElementStale (exampleProps RERUN_REQUESTED [sliderElement]) sliderElement" by blast
  have "reportRunState (exampleProps (OTHER ''not-running'') [textElement]) \<noteq> RERUN_REQUESTED
      \<and> reportRunState (exampleProps (OTHER ''not-running'') [textElement]) \<noteq> RUNNING"
    by (simp add: example_defs)
  with t4 have d: "\<not> isElementStale (exampleProps (OTHER ''not-running'') [textElement]) textElement"
    by blast
  have e: "renderElementWithErrorBoundary ?R False textElement 0 100
       = Inr (Some (Div 0 ''element-container stale-element'' (Some 100) ?cs))"
    by (simp add: example_defs run_defs)
  with t1 have "showStaleElementIndicator ?R \<and> \<not> False \<and> isElementStale ?R textElement" by blast
  have f: "renderElementWithErrorBoundary ?R True textElement 0 100
       = Inr (Some (Div 0 ''element-container'' (Some 100) ?cs))"
    by (simp add: example_defs run_defs)
  from a b c d e f show ?thesis by simp
qed

section \<open>Empty elements\<close>

text \<open>
  C10. For a simple element of type \<^verbatim>\<open>empty\<close>,
  \<^verbatim>\<open>renderElementWithErrorBoundary\<close> returns the plain \<^verbatim>\<open>stEmpty\<close> container:
  no style, no child, hence no error boundary, no suspension node and no stale
  class. \<^verbatim>\<open>renderElement\<close> returns \<^verbatim>\<open>undefined\<close> for the tag \<^verbatim>\<open>empty\<close>. Every
  node \<^verbatim>\<open>renderElementWithErrorBoundary\<close> returns is that plain container, for
  an element of type \<^verbatim>\<open>empty\<close>, or wraps what \<^verbatim>\<open>renderElement\<close> returned for an
  element whose type is not \<^verbatim>\<open>empty\<close>.

  The \<^verbatim>\<open>empty\<close> entry of the table is not reached from
  \<^verbatim>\<open>renderElementWithErrorBoundary\<close>: with any handler at all in its place,
  one that raises included, the method returns what it returns with the
  handler of the source, on every element; whereas \<^verbatim>\<open>renderElement\<close> itself, on
  an element of type \<^verbatim>\<open>empty\<close>, returns what that handler returns. With the
  handler of the source the two methods over the abstract table are the two
  methods of the source.
\<close>

theorem empty_element_plain_div:
  "(element re = Some (Simple el) \<and> type el = ''empty'' \<longrightarrow>
      renderElementWithErrorBoundary props fs re k w = Inr (Some (Div k ''stEmpty'' None [])))
   \<and> (type e = ''empty'' \<longrightarrow> renderElement props (Some e) k w md = Inr None)
   \<and> (renderElementWithErrorBoundary props fs re k w = Inr (Some n) \<longrightarrow>
        (\<exists>el'. element re = Some (Simple el')
           \<and> (if type el' = ''empty'' then n = Div k ''stEmpty'' None []
               else (\<exists>cls component.
                       renderElement props (Some el') k w (metadata re) = Inr component
                       \<and> n = Div k cls (Some w)
                             [ErrorBoundaryNode w [SuspenseNode (loadingAlert w) component]]))))
   \<and> renderElementWith (\<lambda>x. Inr None) props payload' k w md
       = renderElement props payload' k w md
   \<and> renderElementWithErrorBoundaryWith (\<lambda>x. Inr None) props fs re k w
       = renderElementWithErrorBoundary props fs re k w
   \<and> (type e = ''empty'' \<longrightarrow>
        renderElementWith emptyHandler props (Some e) k w md = emptyHandler (payload e))
   \<and> renderElementWithErrorBoundaryWith emptyHandler props fs re k w
       = renderElementWithErrorBoundaryWith (\<lambda>x. Inr None) props fs re k w"
proof (intro conjI impI)
  assume "element re = Some (Simple el) \<and> type el = ''empty''"
  then show "renderElementWithErrorBoundary props fs re k w = Inr (Some (Div k ''stEmpty'' None []))"
    by (simp add: renderEWEB_empty)
next
  assume "type e = ''empty''"
  then show "renderElement props (Some e) k w md = Inr None" by (rule renderElement_empty)
next
  assume r: "renderElementWithErrorBoundary props fs re k w = Inr (Some n)"
  then obtain el' where el: "element re = Some (Simple el')"
    by (auto simp: renderElementWithErrorBoundary_def split: option.splits Element.splits)
  have "if type el' = ''empty'' then n = Div k ''stEmpty'' None []
        else (\<exists>cls component.
                renderElement props (Some el') k w (metadata re) = Inr component
                \<and> n = Div k cls (Some w)
                      [ErrorBoundaryNode w [SuspenseNode (loadingAlert w) component]])"
  proof (cases "type el' = ''empty''")
    case True
    with r el show ?thesis by (auto simp: renderEWEB_empty)
  next
    case False
    with r el obtain c where "renderElement props (Some el') k w (metadata re) = Inr c"
      "n = Div k (containerClass props fs re) (Some w)
             [ErrorBoundaryNode w [SuspenseNode (loadingAlert w) c]]"
      by (auto simp: renderEWEB_simple split: sum.splits)
    with False show ?thesis by auto
  qed
  with el show "\<exists>el'. element re = Some (Simple el')
           \<and> (if type el' = ''empty'' then n = Div k ''stEmpty'' None []
               else (\<exists>cls component.
                       renderElement props (Some el') k w (metadata re) = Inr component
                       \<and> n = Div k cls (Some w)
                             [ErrorBoundaryNode w [SuspenseNode (loadingAlert w) component]]))"
    by blast
next
  show "renderElementWith (\<lambda>x. Inr None) props payload' k w md
       = renderElement props payload' k w md"
    by (rule renderElementWith_source)
  show "renderElementWithErrorBoundaryWith (\<lambda>x. Inr None) props fs re k w
       = renderElementWithErrorBoundary props fs re k w"
    by (rule renderEWEBWith_any)
  show "renderElementWithErrorBoundaryWith emptyHandler props fs re k w
       = renderElementWithErrorBoundaryWith (\<lambda>x. Inr None) props fs re k w"
    by (simp add: renderEWEBWith_any)
next
  assume "type e = ''empty''"
  then show "renderElementWith emptyHandler props (Some e) k w md = emptyHandler (payload e)"
    by (rule renderElementWith_empty)
qed

text \<open>
  At the empty element, with a handler that raises in the place of the
  \<^verbatim>\<open>empty\<close> entry, and at a text element of an earlier report.
\<close>

theorem empty_element_plain_div_witness:
  "element emptyElement = Some (Simple \<lparr>type = ''empty'', payload = []\<rparr>)
   \<and> renderElementWithErrorBoundary (exampleProps RUNNING [emptyElement]) False emptyElement 0 100
       = Inr (Some (Div 0 ''stEmpty'' None []))
   \<and> renderElement (exampleProps RUNNING [emptyElement])
        (Some \<lparr>type = ''empty'', payload = []\<rparr>) 0 100 None = Inr None
   \<and> renderElementWith (\<lambda>x. Inl TypeError) (exampleProps RUNNING [emptyElement])
        (Some \<lparr>type = ''empty'', payload = []\<rparr>) 0 100 None = Inl TypeError
   \<and> renderElementWithErrorBoundaryWith (\<lambda>x. Inl TypeError) (exampleProps RUNNING [emptyElement])
        False emptyElement 0 100
       = Inr (Some (Div 0 ''stEmpty'' None []))
   \<and> (\<exists>cls component.
         renderElement (exampleProps RUNNING [emptyElement])
           (Some \<lparr>type = ''text'', payload = [(''body'', ''hello'')]\<rparr>) 1 100 None = Inr component
         \<and> renderElementWithErrorBoundary (exampleProps RUNNING [emptyElement]) False
             textElement 1 100
           = Inr (Some (Div 1 cls (Some 100)
               [ErrorBoundaryNode 100 [SuspenseNode (loadingAlert 100) component]])))"
proof -
  let ?P = "exampleProps RUNNING [emptyElement]"
  let ?e = "\<lparr>type = ''empty'', payload = []\<rparr>"
  let ?t = "\<lparr>type = ''text'', payload = [(''body'', ''hello'')]\<rparr>"
  let ?raise = "\<lambda>x::ImmutableMap. (Inl TypeError :: error + ReactNode option)"
  let ?n = "Div 1 ''element-container stale-element'' (Some 100)
           [ErrorBoundaryNode 100 [SuspenseNode (loadingAlert 100)
              (Some (Leaf Text [ElementProp [(''body'', ''hello'')], WidthProp 100]))]]"
  have h: "element emptyElement = Some (Simple ?e) \<and> type ?e = ''empty''"
    by (simp add: emptyElement_def)
  have te: "element textElement = Some (Simple ?t)" "metadata textElement = None"
    "type ?t \<noteq> ''empty''"
    by (simp_all add: textElement_def)
  have r: "renderElementWithErrorBoundary ?P False textElement 1 100 = Inr (Some ?n)"
    by (simp add: example_defs run_defs)
  note t = empty_element_plain_div[of emptyElement ?e ?P False 0 100 ?e None _ _ ?raise]
  note t' = empty_element_plain_div[of textElement ?e ?P False 1 100 ?e None ?n]
  from t h have a: "renderElementWithErrorBoundary ?P False emptyElement 0 100
       = Inr (Some (Div 0 ''stEmpty'' None []))" by blast
  from t h have b: "renderElement ?P (Some ?e) 0 100 None = Inr None" by blast
  from t h have "renderElementWith ?raise ?P (Some ?e) 0 100 None = ?raise (payload ?e)" by blast
  then have d: "renderElementWith ?raise ?P (Some ?e) 0 100 None = Inl TypeError" by simp
  from t have "renderElementWithErrorBoundaryWith ?raise ?P False emptyElement 0 100
       = renderElementWithErrorBoundary ?P False emptyElement 0 100" by simp
  with a have e: "renderElementWithErrorBoundaryWith ?raise ?P False emptyElement 0 100
       = Inr (Some (Div 0 ''stEmpty'' None []))" by simp
  from t' r obtain el' where el': "element textElement = Some (Simple el')"
    "if type el' = ''empty'' then ?n = Div 1 ''stEmpty'' None []
     else (\<exists>cls component.
             renderElement ?P (Some el') 1 100 (metadata textElement) = Inr component
             \<and> ?n = Div 1 cls (Some 100)
                   [ErrorBoundaryNode 100 [SuspenseNode (loadingAlert 100) component]])"
    by blast
  from el'(1) te(1) have "el' = ?t" by simp
  with el'(2) te obtain cls component where
    "renderElement ?P (Some ?t) 1 100 None = Inr component"
    "?n = Div 1 cls (Some 100) [ErrorBoundaryNode 100 [SuspenseNode (loadingAlert 100) component]]"
    by auto
  with r have c: "\<exists>cls component.
         renderElement ?P (Some ?t) 1 100 None = Inr component
         \<and> renderElementWithErrorBoundary ?P False textElement 1 100
           = Inr (Some (Div 1 cls (Some 100)
               [ErrorBoundaryNode 100 [SuspenseNode (loadingAlert 100) component]]))"
    by auto
  from h a b c d e show ?thesis by simp
qed

end
